theory Spec2Isabelle
  imports Main "HOL-Library.Word" "HOL-Library.Sublist"
begin

section \<open>Data model\<close>

text \<open>
  The program is a command-line tool (\<^verbatim>\<open>main\<close>), two configuration classes
  (\<^verbatim>\<open>config.ts\<close>) and a wallet helper class (\<^verbatim>\<open>commons.ts\<close>) on top of a wallet SDK
  and a logging library. These are not part of the program: they appear here as a
  parameter (\<open>Sdk\<close>), and the effects the program has on the SDK are recorded, in order,
  in the process state.
\<close>

subsection \<open>Values that are thrown, and how a call ends\<close>

datatype jsError = EmptyError | Thrown string

text \<open>
  How a call, or an awaited promise, ends: it returns or resolves with a value, it throws
  or rejects, it never settles, or the process is terminated by \<^verbatim>\<open>process.exit\<close>.
\<close>

datatype 'a Outcome = Resolved 'a | Rejected jsError | Pending | Exited nat

text \<open>\<^verbatim>\<open>await\<close>: the continuation runs only on a resolved value.\<close>

fun await :: "'a Outcome \<times> 's \<Rightarrow> ('a \<Rightarrow> 's \<Rightarrow> 'b Outcome \<times> 's) \<Rightarrow> 'b Outcome \<times> 's" where
  "await (Resolved x, s) k = k x s"
| "await (Rejected e, s) k = (Rejected e, s)"
| "await (Pending, s) k = (Pending, s)"
| "await (Exited n, s) k = (Exited n, s)"

subsection \<open>The configuration and the network identifier\<close>

text \<open>
  \<^verbatim>\<open>NetworkId\<close> is the enumeration of the SDK package midnight-js-network-id; the program
  uses \<open>Undeployed\<close> and \<open>TestNet\<close>.
\<close>

datatype NetworkId = Undeployed | DevNet | TestNet | MainNet

record Config =
  indexer :: string
  indexerWS :: string
  node :: string
  proofServer :: string

datatype NetworkType = standalone | testnet

fun NetworkType_text :: "NetworkType \<Rightarrow> string" where
  "NetworkType_text standalone = ''standalone''"
| "NetworkType_text testnet = ''testnet''"

subsection \<open>Wallet states and the state stream\<close>

text \<open>
  Modelled from the spec: the declaration of \<^verbatim>\<open>WalletState\<close> belongs to the SDK
  (wallet-api). Its balances map a token identifier to an unsigned integer amount, its
  sync progress is optional and holds the two gaps and the synced flag.
\<close>

record SyncLag =
  applyGap :: nat
  sourceGap :: nat

record SyncProgress =
  lag :: SyncLag
  synced :: bool

record WalletState =
  address :: string
  balances :: "string \<rightharpoonup> nat"
  syncProgress :: "SyncProgress option"
  transactionHistory :: "string list"

text \<open>
  An observable, as one subscriber sees it: the values it emits, each with the time of
  its arrival in milliseconds, and what follows the last of them.
\<close>

datatype Closing = Completes | Fails jsError | StaysOpen

record 'a Observable =
  emissions :: "(nat \<times> 'a) list"
  closing :: Closing

text \<open>
  The SDK's wallet handle. \<open>stateObs w k\<close> is what the subscriber of the \<open>k\<close>-th call of
  \<^verbatim>\<open>wallet.state()\<close> on this handle receives (the calls are counted from 0 in the
  process state), and \<open>closeOutcome\<close> is how \<^verbatim>\<open>wallet.close()\<close> ends.
\<close>

record Wallet =
  handle :: nat
  stateObs :: "nat \<Rightarrow> WalletState Observable"
  closeOutcome :: "unit Outcome"

subsection \<open>The SDK and the process\<close>

text \<open>
  The arguments of \<^verbatim>\<open>WalletBuilder.buildFromSeed\<close>, in the order of the call.
\<close>

record BuildArgs =
  indexerUri :: string
  indexerWsUri :: string
  proverServerUri :: string
  substrateNodeUri :: string
  seedArg :: string
  networkIdArg :: NetworkId
  minLogLevel :: string

text \<open>
  The libraries the program calls: the wallet builder of the SDK, the identifier of the
  native token, and the constructor of the logging library, which is given the level and
  either returns a logger (\<open>None\<close>) or throws.
\<close>

record Sdk =
  buildFromSeed :: "BuildArgs \<Rightarrow> Wallet Outcome"
  nativeToken :: string
  pino :: "string \<Rightarrow> jsError option"

datatype SdkCall =
    SetNetworkId NetworkId
  | BuildFromSeed BuildArgs
  | Start nat
  | State nat
  | Close nat

datatype LogArg = NoArg | NetworkArg NetworkType | ErrArg jsError | CloseErrArg jsError

datatype LogEntry =
    LogInfo LogArg string
  | LogWarn LogArg string
  | LogError LogArg string

text \<open>
  The process: the module variable of midnight-js-network-id, the lines written to the two
  standard streams, \<^verbatim>\<open>process.exitCode\<close>, the calls made on the logger, the calls
  made on the SDK (oldest first), the environment variable \<^verbatim>\<open>LOG_LEVEL\<close>, and the
  bytes the platform's random generator will deliver, in the order of delivery.
\<close>

record Process =
  LOG_LEVEL :: "string option"
  randomSource :: "nat \<Rightarrow> 8 word"
  networkId :: NetworkId
  stdout :: "string list"
  stderr :: "string list"
  exitCode :: "nat option"
  logged :: "LogEntry list"
  sdkCalls :: "SdkCall list"

definition setNetworkId :: "NetworkId \<Rightarrow> Process \<Rightarrow> Process" where
  "setNetworkId n p = p\<lparr>networkId := n, sdkCalls := sdkCalls p @ [SetNetworkId n]\<rparr>"

definition getZswapNetworkId :: "Process \<Rightarrow> NetworkId" where
  "getZswapNetworkId p = networkId p"

definition console_log :: "string \<Rightarrow> Process \<Rightarrow> Process" where
  "console_log line p = p\<lparr>stdout := stdout p @ [line]\<rparr>"

definition console_error :: "string \<Rightarrow> Process \<Rightarrow> Process" where
  "console_error line p = p\<lparr>stderr := stderr p @ [line]\<rparr>"

definition logger_info :: "LogArg \<Rightarrow> string \<Rightarrow> Process \<Rightarrow> Process" where
  "logger_info a msg p = p\<lparr>logged := logged p @ [LogInfo a msg]\<rparr>"

definition logger_warn :: "LogArg \<Rightarrow> string \<Rightarrow> Process \<Rightarrow> Process" where
  "logger_warn a msg p = p\<lparr>logged := logged p @ [LogWarn a msg]\<rparr>"

definition logger_error :: "LogArg \<Rightarrow> string \<Rightarrow> Process \<Rightarrow> Process" where
  "logger_error a msg p = p\<lparr>logged := logged p @ [LogError a msg]\<rparr>"

section \<open>config.ts\<close>

text \<open>
  A constructor returns the new object and the process after its side effect.
\<close>

definition StandaloneConfig :: "Process \<Rightarrow> Config \<times> Process" where
  "StandaloneConfig p =
     (\<lparr>indexer = ''http://127.0.0.1:8088/api/v1/graphql'',
       indexerWS = ''ws://127.0.0.1:8088/api/v1/graphql/ws'',
       node = ''http://127.0.0.1:9944'',
       proofServer = ''http://127.0.0.1:6300''\<rparr>,
      setNetworkId Undeployed p)"

definition TestnetRemoteConfig :: "Process \<Rightarrow> Config \<times> Process" where
  "TestnetRemoteConfig p =
     (\<lparr>indexer = ''https://indexer.testnet-02.midnight.network/api/v1/graphql'',
       indexerWS = ''wss://indexer.testnet-02.midnight.network/api/v1/graphql/ws'',
       node = ''https://rpc.testnet-02.midnight.network'',
       proofServer = ''http://127.0.0.1:6300''\<rparr>,
      setNetworkId TestNet p)"

section \<open>commons.ts\<close>

subsection \<open>Seeds\<close>

text \<open>
  \<^verbatim>\<open>webcrypto.getRandomValues\<close> fills an array of \<open>n\<close> bytes with the next \<open>n\<close>
  bytes of the random generator, which are then used up. (The platform refuses more than
  65536 bytes in one call; the program asks for 32.)
\<close>

definition webcrypto_getRandomValues :: "nat \<Rightarrow> Process \<Rightarrow> 8 word list \<times> Process" where
  "webcrypto_getRandomValues n p =
     (map (randomSource p) [0..<n], p\<lparr>randomSource := (\<lambda>i. randomSource p (i + n))\<rparr>)"

definition randomBytes :: "nat \<Rightarrow> Process \<Rightarrow> 8 word list \<times> Process" where
  "randomBytes len p = webcrypto_getRandomValues len p"

text \<open>
  Modelled from the spec: \<^verbatim>\<open>toHex\<close> belongs to the SDK (midnight-js-utils); it
  hex-encodes the bytes, two characters for each byte.
\<close>

definition hexDigit :: "nat \<Rightarrow> char" where
  "hexDigit d = ''0123456789abcdef'' ! d"

definition toHex :: "8 word list \<Rightarrow> string" where
  "toHex bytes = concat (map (\<lambda>b. [hexDigit (unat b div 16), hexDigit (unat b mod 16)]) bytes)"

definition GENESIS_MINT_WALLET_SEED :: string where
  "GENESIS_MINT_WALLET_SEED = ''0000000000000000000000000000000000000000000000000000000000000001''"

record TestConfiguration =
  seed :: string
  entrypoint :: string
  dappConfig :: Config
  psMode :: string

definition LocalTestConfig :: "Process \<Rightarrow> TestConfiguration \<times> Process" where
  "LocalTestConfig p =
     (let (c, p) = StandaloneConfig p
      in (\<lparr>seed = GENESIS_MINT_WALLET_SEED,
           entrypoint = ''dist/standalone.js'',
           dappConfig = c,
           psMode = ''undeployed''\<rparr>, p))"

subsection \<open>Calls on the SDK\<close>

definition WalletBuilder_buildFromSeed ::
  "Sdk \<Rightarrow> string \<Rightarrow> string \<Rightarrow> string \<Rightarrow> string \<Rightarrow> string \<Rightarrow> NetworkId \<Rightarrow> string \<Rightarrow> Process
     \<Rightarrow> Wallet Outcome \<times> Process" where
  "WalletBuilder_buildFromSeed sdk a1 a2 a3 a4 a5 a6 a7 p =
     (let args = \<lparr>indexerUri = a1, indexerWsUri = a2, proverServerUri = a3,
                  substrateNodeUri = a4, seedArg = a5, networkIdArg = a6, minLogLevel = a7\<rparr>
      in (buildFromSeed sdk args, p\<lparr>sdkCalls := sdkCalls p @ [BuildFromSeed args]\<rparr>))"

definition wallet_start :: "Wallet \<Rightarrow> Process \<Rightarrow> Process" where
  "wallet_start w p = p\<lparr>sdkCalls := sdkCalls p @ [Start (handle w)]\<rparr>"

definition wallet_state :: "Wallet \<Rightarrow> Process \<Rightarrow> WalletState Observable \<times> Process" where
  "wallet_state w p =
     (stateObs w (count_list (sdkCalls p) (State (handle w))),
      p\<lparr>sdkCalls := sdkCalls p @ [State (handle w)]\<rparr>)"

definition wallet_close :: "Wallet \<Rightarrow> Process \<Rightarrow> unit Outcome \<times> Process" where
  "wallet_close w p = (closeOutcome w, p\<lparr>sdkCalls := sdkCalls p @ [Close (handle w)]\<rparr>)"

subsection \<open>The operators of the reactive library\<close>

text \<open>
  \<^verbatim>\<open>firstValueFrom\<close> resolves with the first value and unsubscribes; a stream that
  completes without a value rejects with \<open>EmptyError\<close>, one that fails rejects with its
  error, one that stays open without a value leaves the promise pending.
\<close>

definition firstValueFrom :: "'a Observable \<Rightarrow> 'a Outcome" where
  "firstValueFrom obs =
     (case emissions obs of
        (t, x) # rest \<Rightarrow> Resolved x
      | [] \<Rightarrow> (case closing obs of
                 Completes \<Rightarrow> Rejected EmptyError
               | Fails e \<Rightarrow> Rejected e
               | StaysOpen \<Rightarrow> Pending))"

text \<open>
  \<^verbatim>\<open>throttleTime(d)\<close> with its default configuration (leading edge only): a value
  that arrives while the timer runs is dropped; any other value is passed on and starts
  the timer, which runs for \<open>d\<close> milliseconds. The second argument is the time at which
  the running timer ends (\<open>None\<close> before the first value). A value that arrives at the
  very millisecond the timer ends is taken to arrive after it.
\<close>

fun throttleTime :: "nat \<Rightarrow> nat option \<Rightarrow> (nat \<times> 'a) list \<Rightarrow> (nat \<times> 'a) list" where
  "throttleTime d timer [] = []"
| "throttleTime d timer ((t, x) # rest) =
     (if (case timer of None \<Rightarrow> False | Some u \<Rightarrow> t < u)
      then throttleTime d timer rest
      else (t, x) # throttleTime d (Some (t + d)) rest)"

subsection \<open>Template literals\<close>

definition digitChar :: "nat \<Rightarrow> char" where
  "digitChar d = ''0123456789'' ! d"

fun showNat :: "nat \<Rightarrow> string" where
  "showNat n = (if n < 10 then [digitChar n] else showNat (n div 10) @ [digitChar (n mod 10)])"

declare showNat.simps [simp del]

subsection \<open>The class TestWallet\<close>

record TestWallet =
  wallet :: "Wallet option"

definition TestWallet_new :: TestWallet where
  "TestWallet_new = \<lparr>wallet = None\<rparr>"

text \<open>The stages of the pipe in \<^verbatim>\<open>waitForFunds\<close>, one definition for each callback.\<close>

definition tapMessage :: "WalletState \<Rightarrow> string" where
  "tapMessage s =
     (let applyGap = (case syncProgress s of None \<Rightarrow> 0 | Some sp \<Rightarrow> applyGap (lag sp));
          sourceGap = (case syncProgress s of None \<Rightarrow> 0 | Some sp \<Rightarrow> sourceGap (lag sp))
      in ''Waiting for funds. Backend lag: '' @ showNat sourceGap @ '', wallet lag: ''
           @ showNat applyGap @ '', transactions='' @ showNat (length (transactionHistory s)))"

definition isSynced :: "WalletState \<Rightarrow> bool" where
  "isSynced s = (case syncProgress s of None \<Rightarrow> False | Some sp \<Rightarrow> synced sp = True)"

definition nativeBalance :: "string \<Rightarrow> WalletState \<Rightarrow> nat" where
  "nativeBalance tok s = (case balances s tok of None \<Rightarrow> 0 | Some b \<Rightarrow> b)"

text \<open>
  What the subscriber of the pipe does with the values that passed the throttle, one after
  the other: tap, filter, map, filter; the first value that comes through resolves the
  promise and ends the subscription, so no later value is looked at.
\<close>

fun fundsLoop :: "string \<Rightarrow> (nat \<times> WalletState) list \<Rightarrow> Closing \<Rightarrow> Process \<Rightarrow> nat Outcome \<times> Process" where
  "fundsLoop tok [] c p = (firstValueFrom \<lparr>emissions = [], closing = c\<rparr>, p)"
| "fundsLoop tok ((t, s) # rest) c p =
     (let p = logger_info NoArg (tapMessage s) p
      in if isSynced s
         then (let balance = nativeBalance tok s
               in if balance > 0 then (Resolved balance, p) else fundsLoop tok rest c p)
         else fundsLoop tok rest c p)"

definition waitForFunds :: "Sdk \<Rightarrow> Wallet \<Rightarrow> Process \<Rightarrow> nat Outcome \<times> Process" where
  "waitForFunds sdk w p =
     (let (obs, p) = wallet_state w p
      in fundsLoop (nativeToken sdk) (throttleTime 10000 None (emissions obs)) (closing obs) p)"

definition buildWalletAndWaitForFunds :: "Sdk \<Rightarrow> Config \<Rightarrow> string \<Rightarrow> Process \<Rightarrow> Wallet Outcome \<times> Process" where
  "buildWalletAndWaitForFunds sdk cfg sd p =
     await (WalletBuilder_buildFromSeed sdk (indexer cfg) (indexerWS cfg) (proofServer cfg) (node cfg)
              sd (getZswapNetworkId p) ''warn'' p)
       (\<lambda>w p.
          let p = wallet_start w p;
              (obs, p) = wallet_state w p
          in await (firstValueFrom obs, p)
               (\<lambda>s p.
                  let p = logger_info NoArg (''Wallet seed is: '' @ sd) p;
                      p = logger_info NoArg (''Wallet address is: '' @ address s) p;
                      finish = (\<lambda>balance p.
                         (Resolved w, logger_info NoArg (''Wallet balance is: '' @ showNat balance) p));
                      wait = (\<lambda>p.
                         let p = logger_info NoArg ''Wallet balance is: 0'' p;
                             p = logger_info NoArg ''Waiting to receive tokens...'' p
                         in await (waitForFunds sdk w p) finish)
                  in (case balances s (nativeToken sdk) of
                        None \<Rightarrow> wait p
                      | Some balance \<Rightarrow> if balance = 0 then wait p else finish balance p)))"

definition buildFreshWallet :: "Sdk \<Rightarrow> Config \<Rightarrow> Process \<Rightarrow> (Wallet \<times> string) Outcome \<times> Process" where
  "buildFreshWallet sdk cfg p =
     (let (bytes, p) = randomBytes 32 p;
          sd = toHex bytes
      in await (WalletBuilder_buildFromSeed sdk (indexer cfg) (indexerWS cfg) (proofServer cfg) (node cfg)
                  sd (getZswapNetworkId p) ''warn'' p)
           (\<lambda>w p.
              let p = wallet_start w p;
                  (obs, p) = wallet_state w p
              in await (firstValueFrom obs, p)
                   (\<lambda>s p.
                      let p = logger_info NoArg (''Wallet seed is: '' @ sd) p;
                          p = logger_info NoArg (''Wallet address is: '' @ address s) p;
                          balance = (case balances s (nativeToken sdk) of None \<Rightarrow> 0 | Some b \<Rightarrow> b);
                          p = logger_info NoArg (''Wallet balance is: '' @ showNat balance) p
                      in (Resolved (w, sd), p))))"

definition buildWalletFromSeed :: "Sdk \<Rightarrow> Config \<Rightarrow> string \<Rightarrow> Process \<Rightarrow> Wallet Outcome \<times> Process" where
  "buildWalletFromSeed sdk cfg sd p =
     await (WalletBuilder_buildFromSeed sdk (indexer cfg) (indexerWS cfg) (proofServer cfg) (node cfg)
              sd (getZswapNetworkId p) ''warn'' p)
       (\<lambda>w p.
          let p = wallet_start w p;
              (obs, p) = wallet_state w p
          in await (firstValueFrom obs, p)
               (\<lambda>s p.
                  let p = logger_info NoArg (''Wallet seed is: '' @ sd) p;
                      p = logger_info NoArg (''Wallet address is: '' @ address s) p;
                      balance = (case balances s (nativeToken sdk) of None \<Rightarrow> 0 | Some b \<Rightarrow> b);
                      p = logger_info NoArg (''Wallet balance is: '' @ showNat balance) p
                  in (Resolved w, p)))"

text \<open>\<^verbatim>\<open>setup\<close> stores the handle in the object's field and returns it.\<close>

definition TestWallet_setup :: "Sdk \<Rightarrow> TestConfiguration \<Rightarrow> TestWallet \<times> Process \<Rightarrow> Wallet Outcome \<times> (TestWallet \<times> Process)" where
  "TestWallet_setup sdk testConfiguration = (\<lambda>(this, p).
     let p = logger_info NoArg ''Setting up wallet'' p
     in (case buildWalletAndWaitForFunds sdk (dappConfig testConfiguration) (seed testConfiguration) p of
           (Resolved w, p) \<Rightarrow> (Resolved w, (this\<lparr>wallet := Some w\<rparr>, p))
         | (Rejected e, p) \<Rightarrow> (Rejected e, (this, p))
         | (Pending, p) \<Rightarrow> (Pending, (this, p))
         | (Exited n, p) \<Rightarrow> (Exited n, (this, p))))"

section \<open>The command-line entry point\<close>

definition DEFAULT_LOG_LEVEL :: "Process \<Rightarrow> string" where
  "DEFAULT_LOG_LEVEL p = (case LOG_LEVEL p of None \<Rightarrow> ''info'' | Some level \<Rightarrow> level)"

text \<open>
  \<^verbatim>\<open>createLogger\<close> hands the level to the logging library, which throws when it does
  not know the level. The logger it returns is the \<open>logged\<close> field of the process:
  that field holds the calls made on the logger, whatever the level lets through.
\<close>

definition createLogger :: "Sdk \<Rightarrow> Process \<Rightarrow> unit Outcome \<times> Process" where
  "createLogger sdk p =
     (case pino sdk (DEFAULT_LOG_LEVEL p) of
        None \<Rightarrow> (Resolved (), p)
      | Some e \<Rightarrow> (Rejected e, p))"

definition process_exit :: "nat \<Rightarrow> Process \<Rightarrow> 'a Outcome \<times> Process" where
  "process_exit n p = (Exited n, p)"

text \<open>
  \<^verbatim>\<open>process.argv\<close> holds the interpreter, the script and then the arguments; the
  destructuring takes the element at index 2, which is undefined when there is none.
  The test \<^verbatim>\<open>!network\<close> holds of undefined and of the empty string.
\<close>

definition getNetworkFromArgs :: "string list \<Rightarrow> Process \<Rightarrow> NetworkType Outcome \<times> Process" where
  "getNetworkFromArgs argv p =
     (let network = (case drop 2 argv of [] \<Rightarrow> None | a # rest \<Rightarrow> Some a)
      in if network = None \<or> network = Some []
         then (let p = console_log ''Usage: yarn create-wallet <network>'' p;
                   p = console_log ''  network: standalone | testnet'' p;
                   p = console_log [] p;
                   p = console_log ''Examples:'' p;
                   p = console_log ''  yarn create-wallet standalone  # Create wallet for local development'' p;
                   p = console_log ''  yarn create-wallet testnet     # Create wallet for TestNet'' p
               in process_exit 1 p)
         else if network \<noteq> Some ''standalone'' \<and> network \<noteq> Some ''testnet''
         then (let p = console_error (''Invalid network: '' @ (case network of None \<Rightarrow> [] | Some a \<Rightarrow> a)) p;
                   p = console_error ''Valid options: standalone, testnet'' p
               in process_exit 1 p)
         else (Resolved (if network = Some ''standalone'' then standalone else testnet), p))"

fun getConfigForNetwork :: "NetworkType \<Rightarrow> Process \<Rightarrow> Config \<times> Process" where
  "getConfigForNetwork standalone p = StandaloneConfig p"
| "getConfigForNetwork testnet p = TestnetRemoteConfig p"

text \<open>The lines of the banner; the warning sign is written as its bytes in UTF-8.\<close>

definition banner :: "NetworkType \<Rightarrow> string \<Rightarrow> string list" where
  "banner network sd =
     [[],
      replicate 60 (CHR ''=''),
      ''  NEW WALLET CREATED'',
      replicate 60 (CHR ''=''),
      [],
      ''  Network: '' @ NetworkType_text network,
      ''  Seed: '' @ sd,
      [],
      ''  '' @ [CHR 0xE2, CHR 0x9A, CHR 0xA0, CHR 0xEF, CHR 0xB8, CHR 0x8F]
         @ ''  IMPORTANT: Save your seed securely!'',
      ''  You will need it to restore your wallet.'',
      [],
      replicate 60 (CHR ''='')]"

text \<open>The \<^verbatim>\<open>finally\<close> block of \<^verbatim>\<open>main\<close>, on the value of its variable \<^verbatim>\<open>wallet\<close>.\<close>

definition main_finally :: "Wallet option \<Rightarrow> Process \<Rightarrow> unit Outcome \<times> Process" where
  "main_finally wallet_var p =
     (case wallet_var of
        None \<Rightarrow> (Resolved (), p)
      | Some w \<Rightarrow>
          (case wallet_close w p of
             (Resolved u, p) \<Rightarrow> (Resolved (), logger_info NoArg ''Wallet closed'' p)
           | (Rejected closeErr, p) \<Rightarrow>
               (Resolved (), logger_warn (CloseErrArg closeErr) ''Failed to close wallet cleanly'' p)
           | (Pending, p) \<Rightarrow> (Pending, p)
           | (Exited n, p) \<Rightarrow> (Exited n, p)))"

text \<open>
  \<^verbatim>\<open>main\<close>. Its first statement creates the logger, before the arguments are read; an
  error thrown there rejects the promise of \<^verbatim>\<open>main\<close>. The variable \<^verbatim>\<open>wallet\<close> is
  \<open>None\<close> until \<^verbatim>\<open>buildFreshWallet\<close> has returned.
\<close>

definition main :: "Sdk \<Rightarrow> string list \<Rightarrow> Process \<Rightarrow> unit Outcome \<times> Process" where
  "main sdk argv p =
     await (createLogger sdk p)
       (\<lambda>logger p.
          await (getNetworkFromArgs argv p)
            (\<lambda>network p.
               let (config, p) = getConfigForNetwork network p;
                   p = logger_info (NetworkArg network) ''Creating new wallet'' p
               in (case buildFreshWallet sdk config p of
                     (Resolved result, p) \<Rightarrow>
                       main_finally (Some (fst result))
                         (fold console_log (banner network (snd result)) p)
                   | (Rejected err, p) \<Rightarrow>
                       main_finally None
                         ((logger_error (ErrArg err) ''Error while creating wallet'' p)
                            \<lparr>exitCode := Some 1\<rparr>)
                   | (Pending, p) \<Rightarrow> (Pending, p)
                   | (Exited n, p) \<Rightarrow> (Exited n, p))))"

text \<open>
  The text \<^verbatim>\<open>console.error\<close> prints for a thrown value; of an error object the model
  keeps the message.
\<close>

definition jsError_text :: "jsError \<Rightarrow> string" where
  "jsError_text e = (case e of EmptyError \<Rightarrow> ''EmptyError'' | Thrown msg \<Rightarrow> msg)"

text \<open>The module's last statement: \<^verbatim>\<open>main\<close> with its handler for a rejection.\<close>

definition entry :: "Sdk \<Rightarrow> string list \<Rightarrow> Process \<Rightarrow> unit Outcome \<times> Process" where
  "entry sdk argv p =
     (case main sdk argv p of
        (Rejected err, p) \<Rightarrow>
          process_exit 1 (console_error (''Unhandled error in main: '' @ jsError_text err) p)
      | (Resolved u, p) \<Rightarrow> (Resolved u, p)
      | (Pending, p) \<Rightarrow> (Pending, p)
      | (Exited n, p) \<Rightarrow> (Exited n, p))"

text \<open>
  The exit status of the process: the argument of \<^verbatim>\<open>process.exit\<close>, or, when the
  program runs to its end, \<^verbatim>\<open>process.exitCode\<close> and 0 if that was never set. A process
  that never ends has none.
\<close>

definition exitStatus :: "unit Outcome \<times> Process \<Rightarrow> nat option" where
  "exitStatus r =
     (case r of
        (Exited n, p) \<Rightarrow> Some n
      | (Resolved u, p) \<Rightarrow> Some (case exitCode p of None \<Rightarrow> 0 | Some c \<Rightarrow> c)
      | (Rejected e, p) \<Rightarrow> Some 1
      | (Pending, p) \<Rightarrow> None)"

section \<open>Notions used in the statements\<close>

text \<open>The network identifier that belongs to a network name.\<close>

fun NetworkType_id :: "NetworkType \<Rightarrow> NetworkId" where
  "NetworkType_id standalone = Undeployed"
| "NetworkType_id testnet = TestNet"

text \<open>
  Constructing configuration objects one after the other: the three classes of the
  program that can be instantiated, and the process after a list of instantiations.
\<close>

datatype ConfigClass = NewStandaloneConfig | NewTestnetRemoteConfig | NewLocalTestConfig

fun construct :: "ConfigClass \<Rightarrow> Process \<Rightarrow> Process" where
  "construct NewStandaloneConfig p = snd (StandaloneConfig p)"
| "construct NewTestnetRemoteConfig p = snd (TestnetRemoteConfig p)"
| "construct NewLocalTestConfig p = snd (LocalTestConfig p)"

fun ConfigClass_id :: "ConfigClass \<Rightarrow> NetworkId" where
  "ConfigClass_id NewStandaloneConfig = Undeployed"
| "ConfigClass_id NewTestnetRemoteConfig = TestNet"
| "ConfigClass_id NewLocalTestConfig = Undeployed"

text \<open>
  The specification's condition on a snapshot: synced is true and the balance of the
  native token is positive, an absent entry counting as zero.
\<close>

definition funded :: "string \<Rightarrow> WalletState \<Rightarrow> bool" where
  "funded tok s =
     ((case syncProgress s of None \<Rightarrow> False | Some sp \<Rightarrow> synced sp)
      \<and> (case balances s tok of None \<Rightarrow> False | Some b \<Rightarrow> 0 < b))"

text \<open>
  The snapshots the subscriber evaluates, among those that passed the throttle: all of
  them up to the first funded one, and that one.
\<close>

fun evaluated :: "string \<Rightarrow> (nat \<times> WalletState) list \<Rightarrow> (nat \<times> WalletState) list" where
  "evaluated tok [] = []"
| "evaluated tok ((t, s) # rest) =
     (if funded tok s then [(t, s)] else (t, s) # evaluated tok rest)"

text \<open>The handles on which \<^verbatim>\<open>close\<close> was called, and the wallet constructions.\<close>

fun closeAttempts :: "SdkCall list \<Rightarrow> nat list" where
  "closeAttempts [] = []"
| "closeAttempts (Close h # cs) = h # closeAttempts cs"
| "closeAttempts (c # cs) = closeAttempts cs"

fun constructions :: "SdkCall list \<Rightarrow> BuildArgs list" where
  "constructions [] = []"
| "constructions (BuildFromSeed a # cs) = a # constructions cs"
| "constructions (c # cs) = constructions cs"

text \<open>The six lines of the usage text.\<close>

definition usageText :: "string list" where
  "usageText =
     [''Usage: yarn create-wallet <network>'',
      ''  network: standalone | testnet'',
      [],
      ''Examples:'',
      ''  yarn create-wallet standalone  # Create wallet for local development'',
      ''  yarn create-wallet testnet     # Create wallet for TestNet'']"

section \<open>Concrete inputs\<close>

text \<open>
  A process at its start, with \<^verbatim>\<open>LOG_LEVEL\<close> unset and a random generator that will
  deliver the bytes 0, 7, 14, ...
\<close>

definition freshProcess :: Process where
  "freshProcess =
     \<lparr>LOG_LEVEL = None, randomSource = (\<lambda>i. of_nat (7 * i)), networkId = Undeployed,
      stdout = [], stderr = [], exitCode = None, logged = [], sdkCalls = []\<rparr>"

text \<open>The levels the logging library knows, and the error it throws for any other.\<close>

definition pinoLevels :: "string list" where
  "pinoLevels = [''trace'', ''debug'', ''info'', ''warn'', ''error'', ''fatal'', ''silent'']"

definition demoPino :: "string \<Rightarrow> jsError option" where
  "demoPino level =
     (if level \<in> set pinoLevels then None
      else Some (Thrown (''default level:'' @ level @ '' must be included in custom levels'')))"

text \<open>A snapshot with the given address, native balance (under the key \<open>''native''\<close>) and synced flag.\<close>

definition snapshot :: "string \<Rightarrow> nat option \<Rightarrow> bool \<Rightarrow> WalletState" where
  "snapshot a b sy =
     \<lparr>address = a,
      balances = (\<lambda>k. if k = ''native'' then b else None),
      syncProgress = Some \<lparr>lag = \<lparr>applyGap = 2, sourceGap = 3\<rparr>, synced = sy\<rparr>,
      transactionHistory = []\<rparr>"

text \<open>
  A stream on which a snapshot without sync progress arrives first, a synced one with
  balance 100 five seconds later and a synced one with balance 200 at twenty seconds.
\<close>

definition lateStream :: "string \<Rightarrow> WalletState Observable" where
  "lateStream a =
     \<lparr>emissions = [(0, (snapshot a None False)\<lparr>syncProgress := None\<rparr>),
                   (5000, snapshot a (Some 100) True),
                   (20000, snapshot a (Some 200) True)],
      closing = StaysOpen\<rparr>"

text \<open>A wallet that delivers this stream to every subscriber.\<close>

definition lateWallet :: Wallet where
  "lateWallet =
     \<lparr>handle = 2, stateObs = (\<lambda>k. lateStream ''mn_addr''), closeOutcome = Resolved ()\<rparr>"

text \<open>
  An SDK whose wallets derive their address from the seed, report no native balance to
  the first subscriber and \<open>lateStream\<close> to the later ones, and fail to close; its
  logging library is \<open>demoPino\<close>.
\<close>

definition demoWallet :: "string \<Rightarrow> Wallet" where
  "demoWallet sd =
     \<lparr>handle = 1,
      stateObs = (\<lambda>k. if k = 0
                       then \<lparr>emissions = [(0, snapshot (''addr-'' @ sd) None False)], closing = StaysOpen\<rparr>
                       else lateStream (''addr-'' @ sd)),
      closeOutcome = Rejected (Thrown ''socket closed'')\<rparr>"

definition demoSdk :: Sdk where
  "demoSdk =
     \<lparr>buildFromSeed = (\<lambda>args. Resolved (demoWallet (seedArg args))),
      nativeToken = ''native'',
      pino = demoPino\<rparr>"

text \<open>
  An SDK that formats the address of a wallet from the network identifier it is given
  and the seed.
\<close>

fun networkPrefix :: "NetworkId \<Rightarrow> string" where
  "networkPrefix Undeployed = ''mn_addr_undeployed1''"
| "networkPrefix DevNet = ''mn_addr_dev1''"
| "networkPrefix TestNet = ''mn_addr_test1''"
| "networkPrefix MainNet = ''mn_addr1''"

definition netSdk :: Sdk where
  "netSdk =
     \<lparr>buildFromSeed = (\<lambda>args. Resolved
         \<lparr>handle = 3,
          stateObs = (\<lambda>k. \<lparr>emissions =
                               [(0, snapshot (networkPrefix (networkIdArg args) @ seedArg args)
                                      None False)],
                            closing = StaysOpen\<rparr>),
          closeOutcome = Resolved ()\<rparr>),
      nativeToken = ''native'',
      pino = demoPino\<rparr>"

section \<open>Properties of the configuration classes\<close>

lemma constructs_networkId_last:
  "networkId (fold construct (cs @ [c]) p) = ConfigClass_id c"
  by (cases c)
     (simp_all add: StandaloneConfig_def TestnetRemoteConfig_def LocalTestConfig_def setNetworkId_def)

lemma constructs_sdkCalls:
  "sdkCalls (fold construct cs p) = sdkCalls p @ map (\<lambda>c. SetNetworkId (ConfigClass_id c)) cs"
proof (induction cs arbitrary: p)
  case Nil
  show ?case by simp
next
  case (Cons c cs)
  show ?case
    by (cases c)
       (simp_all add: Cons StandaloneConfig_def TestnetRemoteConfig_def LocalTestConfig_def
          setNetworkId_def)
qed

text \<open>
  C9. Every construction of a configuration object writes the process-wide network
  identifier, whatever it was before: \<open>StandaloneConfig\<close> and \<open>LocalTestConfig\<close> (whose
  field initialiser constructs a \<open>StandaloneConfig\<close>) leave it at \<open>Undeployed\<close>,
  \<open>TestnetRemoteConfig\<close> at \<open>TestNet\<close>. So a second construction re-points the
  identifier: after any sequence of constructions it is the identifier of the class
  constructed last, and the identifier has been written once for each construction, that
  is, once only when one configuration has been constructed.
\<close>

theorem config_construction_overwrites_networkId:
  "networkId (snd (StandaloneConfig p)) = Undeployed
   \<and> networkId (snd (TestnetRemoteConfig p)) = TestNet
   \<and> networkId (snd (LocalTestConfig p)) = Undeployed
   \<and> dappConfig (fst (LocalTestConfig p)) = fst (StandaloneConfig p)
   \<and> networkId (snd (StandaloneConfig (snd (TestnetRemoteConfig p)))) = Undeployed
   \<and> networkId (snd (TestnetRemoteConfig (snd (StandaloneConfig p)))) = TestNet
   \<and> networkId (snd (LocalTestConfig (snd (TestnetRemoteConfig p)))) = Undeployed
   \<and> networkId (fold construct (cs @ [c]) p) = ConfigClass_id c
   \<and> sdkCalls (fold construct cs p) = sdkCalls p @ map (\<lambda>c. SetNetworkId (ConfigClass_id c)) cs"
proof -
  have a: "networkId (snd (StandaloneConfig q)) = Undeployed" for q
    by (simp add: StandaloneConfig_def setNetworkId_def)
  have b: "networkId (snd (TestnetRemoteConfig q)) = TestNet" for q
    by (simp add: TestnetRemoteConfig_def setNetworkId_def)
  have c: "networkId (snd (LocalTestConfig q)) = Undeployed" for q
    by (simp add: LocalTestConfig_def StandaloneConfig_def setNetworkId_def)
  have d: "dappConfig (fst (LocalTestConfig p)) = fst (StandaloneConfig p)"
    by (simp add: LocalTestConfig_def StandaloneConfig_def)
  show ?thesis
    using a b c d constructs_networkId_last constructs_sdkCalls by blast
qed

section \<open>Properties of the entry point\<close>

lemmas sdk_defs = WalletBuilder_buildFromSeed_def wallet_start_def wallet_state_def
  wallet_close_def getZswapNetworkId_def
lemmas io_defs = logger_info_def logger_warn_def logger_error_def console_log_def
  console_error_def process_exit_def

lemma buildFreshWallet_eq:
  "buildFreshWallet sdk cfg p =
     (let sd = toHex (map (randomSource p) [0..<32]);
          args = \<lparr>indexerUri = indexer cfg, indexerWsUri = indexerWS cfg,
                   proverServerUri = proofServer cfg, substrateNodeUri = node cfg,
                   seedArg = sd, networkIdArg = networkId p, minLogLevel = ''warn''\<rparr>;
          p0 = p\<lparr>randomSource := (\<lambda>i. randomSource p (i + 32))\<rparr>
      in case buildFromSeed sdk args of
           Resolved w \<Rightarrow>
             (let p2 = p0\<lparr>sdkCalls := sdkCalls p @ [BuildFromSeed args, Start (handle w), State (handle w)]\<rparr>
              in case firstValueFrom (stateObs w (count_list (sdkCalls p) (State (handle w)))) of
                   Resolved s \<Rightarrow>
                     (Resolved (w, sd),
                      p2\<lparr>logged := logged p @
                         [LogInfo NoArg (''Wallet seed is: '' @ sd),
                          LogInfo NoArg (''Wallet address is: '' @ address s),
                          LogInfo NoArg (''Wallet balance is: '' @
                             showNat (case balances s (nativeToken sdk) of None \<Rightarrow> 0 | Some b \<Rightarrow> b))]\<rparr>)
                 | Rejected e \<Rightarrow> (Rejected e, p2)
                 | Pending \<Rightarrow> (Pending, p2)
                 | Exited n \<Rightarrow> (Exited n, p2))
         | Rejected e \<Rightarrow> (Rejected e, p0\<lparr>sdkCalls := sdkCalls p @ [BuildFromSeed args]\<rparr>)
         | Pending \<Rightarrow> (Pending, p0\<lparr>sdkCalls := sdkCalls p @ [BuildFromSeed args]\<rparr>)
         | Exited n \<Rightarrow> (Exited n, p0\<lparr>sdkCalls := sdkCalls p @ [BuildFromSeed args]\<rparr>))"
  by (simp add: buildFreshWallet_def randomBytes_def webcrypto_getRandomValues_def sdk_defs
      io_defs Let_def split: Outcome.splits)

lemma createLogger_ok:
  "pino sdk (DEFAULT_LOG_LEVEL p) = None \<Longrightarrow> createLogger sdk p = (Resolved (), p)"
  by (simp add: createLogger_def)

lemma main_logger_fails:
  "pino sdk (DEFAULT_LOG_LEVEL p) = Some e \<Longrightarrow> main sdk argv p = (Rejected e, p)"
  by (simp add: main_def createLogger_def)

lemma getNetworkFromArgs_usage:
  "drop 2 argv = [] \<or> (\<exists>rest. drop 2 argv = [] # rest) \<Longrightarrow>
   getNetworkFromArgs argv p = (Exited 1, p\<lparr>stdout := stdout p @ usageText\<rparr>)"
  by (auto simp add: getNetworkFromArgs_def io_defs usageText_def Let_def)

lemma getNetworkFromArgs_invalid:
  "drop 2 argv = a # rest \<Longrightarrow> a \<noteq> [] \<Longrightarrow> a \<noteq> ''standalone'' \<Longrightarrow> a \<noteq> ''testnet'' \<Longrightarrow>
   getNetworkFromArgs argv p =
     (Exited 1, p\<lparr>stderr := stderr p @ [''Invalid network: '' @ a, ''Valid options: standalone, testnet'']\<rparr>)"
  by (simp add: getNetworkFromArgs_def io_defs Let_def)

lemma closeAttempts_append: "closeAttempts (xs @ ys) = closeAttempts xs @ closeAttempts ys"
  by (induction xs rule: closeAttempts.induct) simp_all

lemma constructions_append: "constructions (xs @ ys) = constructions xs @ constructions ys"
  by (induction xs rule: constructions.induct) simp_all

lemma sdkCalls_fold_console_log: "sdkCalls (fold console_log ls p) = sdkCalls p"
  by (induction ls arbitrary: p) (simp_all add: console_log_def)

lemma fold_console_log: "fold console_log ls p = p\<lparr>stdout := stdout p @ ls\<rparr>"
  by (induction ls arbitrary: p) (simp_all add: console_log_def)


lemma getNetworkFromArgs_valid_drop:
  "drop 2 argv = NetworkType_text network # rest \<Longrightarrow> getNetworkFromArgs argv p = (Resolved network, p)"
  by (cases network) (simp_all add: getNetworkFromArgs_def)

lemma buildFreshWallet_calls:
  "\<exists>rest. sdkCalls (snd (buildFreshWallet sdk cfg p)) =
      sdkCalls p @ BuildFromSeed \<lparr>indexerUri = indexer cfg, indexerWsUri = indexerWS cfg,
                   proverServerUri = proofServer cfg, substrateNodeUri = node cfg,
                   seedArg = toHex (map (randomSource p) [0..<32]), networkIdArg = networkId p,
                   minLogLevel = ''warn''\<rparr> # rest
     \<and> constructions rest = [] \<and> closeAttempts rest = []"
  by (simp add: buildFreshWallet_eq Let_def split: Outcome.splits)

lemma buildFreshWallet_unchanged:
  "networkId (snd (buildFreshWallet sdk cfg p)) = networkId p
   \<and> stdout (snd (buildFreshWallet sdk cfg p)) = stdout p
   \<and> stderr (snd (buildFreshWallet sdk cfg p)) = stderr p
   \<and> exitCode (snd (buildFreshWallet sdk cfg p)) = exitCode p"
  by (simp add: buildFreshWallet_eq Let_def split: Outcome.splits)

lemma main_finally_calls:
  "sdkCalls (snd (main_finally wv p)) =
     sdkCalls p @ (case wv of None \<Rightarrow> [] | Some w \<Rightarrow> [Close (handle w)])"
  by (simp add: main_finally_def wallet_close_def io_defs split: option.splits Outcome.splits)

lemma main_finally_unchanged:
  "networkId (snd (main_finally wv p)) = networkId p
   \<and> stdout (snd (main_finally wv p)) = stdout p
   \<and> stderr (snd (main_finally wv p)) = stderr p
   \<and> exitCode (snd (main_finally wv p)) = exitCode p"
  by (simp add: main_finally_def wallet_close_def io_defs split: option.splits Outcome.splits)

lemma main_valid:
  assumes "drop 2 argv = NetworkType_text network # rest"
    and "pino sdk (DEFAULT_LOG_LEVEL p) = None"
  shows "main sdk argv p =
     (case buildFreshWallet sdk (fst (getConfigForNetwork network p))
             (logger_info (NetworkArg network) ''Creating new wallet''
                (snd (getConfigForNetwork network p))) of
        (Resolved result, q) \<Rightarrow>
          main_finally (Some (fst result)) (fold console_log (banner network (snd result)) q)
      | (Rejected err, q) \<Rightarrow>
          main_finally None
            ((logger_error (ErrArg err) ''Error while creating wallet'' q)\<lparr>exitCode := Some 1\<rparr>)
      | (Pending, q) \<Rightarrow> (Pending, q)
      | (Exited n, q) \<Rightarrow> (Exited n, q))"
  by (simp add: main_def createLogger_ok [OF assms(2)] getNetworkFromArgs_valid_drop [OF assms(1)]
      split: prod.splits)

lemma getConfigForNetwork_process:
  "snd (getConfigForNetwork network p) =
     p\<lparr>networkId := NetworkType_id network, sdkCalls := sdkCalls p @ [SetNetworkId (NetworkType_id network)]\<rparr>"
  by (cases network) (simp_all add: StandaloneConfig_def TestnetRemoteConfig_def setNetworkId_def)

lemma main_valid_calls:
  assumes "drop 2 argv = NetworkType_text network # rest"
    and "pino sdk (DEFAULT_LOG_LEVEL p) = None"
  shows "\<exists>more. sdkCalls (snd (main sdk argv p)) =
      sdkCalls p @ SetNetworkId (NetworkType_id network) #
        BuildFromSeed \<lparr>indexerUri = indexer (fst (getConfigForNetwork network p)),
                   indexerWsUri = indexerWS (fst (getConfigForNetwork network p)),
                   proverServerUri = proofServer (fst (getConfigForNetwork network p)),
                   substrateNodeUri = node (fst (getConfigForNetwork network p)),
                   seedArg = toHex (map (randomSource p) [0..<32]), networkIdArg = NetworkType_id network,
                   minLogLevel = ''warn''\<rparr> # more
     \<and> constructions more = []"
proof -
  let ?cfg = "fst (getConfigForNetwork network p)"
  let ?q = "logger_info (NetworkArg network) ''Creating new wallet'' (snd (getConfigForNetwork network p))"
  obtain r q' where b: "buildFreshWallet sdk ?cfg ?q = (r, q')"
    by (cases "buildFreshWallet sdk ?cfg ?q") auto
  from buildFreshWallet_calls [of sdk ?cfg ?q] b obtain more0 where
    m: "sdkCalls q' = sdkCalls ?q @ BuildFromSeed \<lparr>indexerUri = indexer ?cfg, indexerWsUri = indexerWS ?cfg,
                   proverServerUri = proofServer ?cfg, substrateNodeUri = node ?cfg,
                   seedArg = toHex (map (randomSource ?q) [0..<32]), networkIdArg = networkId ?q,
                   minLogLevel = ''warn''\<rparr> # more0" and c: "constructions more0 = []"
    by auto
  have q: "sdkCalls ?q = sdkCalls p @ [SetNetworkId (NetworkType_id network)]"
      "networkId ?q = NetworkType_id network" "randomSource ?q = randomSource p"
    by (simp_all add: getConfigForNetwork_process logger_info_def)
  show ?thesis
    by (cases r)
       (auto simp add: main_valid [OF assms] b m q c main_finally_calls sdkCalls_fold_console_log
          constructions_append logger_error_def split: option.splits)
qed


text \<open>
  C5, as amended. Provided the logger can be created (the logging library accepts the
  level from \<open>LOG_LEVEL\<close>, or \<open>info\<close> when that is unset): when the network argument
  is missing or is the empty string, the process prints the usage text to standard output
  and exits with status 1; when it is a non-empty string other than \<open>standalone\<close> and
  \<open>testnet\<close>, the process prints an error naming that value to standard error and
  exits with status 1; with a valid argument one wallet construction is attempted. When
  the logger cannot be created, \<open>main\<close> rejects before it reads the argument, and the
  process prints the unhandled error to standard error and exits with status 1. In all
  three cases of failure nothing else is written and no wallet is constructed.
\<close>

theorem main_usage_errors:
  "(case pino sdk (DEFAULT_LOG_LEVEL p) of
      Some e \<Rightarrow>
        main sdk argv p = (Rejected e, p)
        \<and> entry sdk argv p =
            (Exited 1, p\<lparr>stderr := stderr p @ [''Unhandled error in main: '' @ jsError_text e]\<rparr>)
        \<and> exitStatus (entry sdk argv p) = Some 1
        \<and> constructions (sdkCalls (snd (entry sdk argv p))) = constructions (sdkCalls p)
    | None \<Rightarrow>
       (case drop 2 argv of
          [] \<Rightarrow>
            main sdk argv p = (Exited 1, p\<lparr>stdout := stdout p @ usageText\<rparr>)
            \<and> entry sdk argv p = main sdk argv p
            \<and> exitStatus (entry sdk argv p) = Some 1
            \<and> constructions (sdkCalls (snd (main sdk argv p))) = constructions (sdkCalls p)
        | a # rest \<Rightarrow>
            if a = []
            then main sdk argv p = (Exited 1, p\<lparr>stdout := stdout p @ usageText\<rparr>)
                 \<and> entry sdk argv p = main sdk argv p
                 \<and> exitStatus (entry sdk argv p) = Some 1
                 \<and> constructions (sdkCalls (snd (main sdk argv p))) = constructions (sdkCalls p)
            else if a \<noteq> ''standalone'' \<and> a \<noteq> ''testnet''
            then main sdk argv p =
                   (Exited 1, p\<lparr>stderr := stderr p @ [''Invalid network: '' @ a,
                                                        ''Valid options: standalone, testnet'']\<rparr>)
                 \<and> entry sdk argv p = main sdk argv p
                 \<and> exitStatus (entry sdk argv p) = Some 1
                 \<and> constructions (sdkCalls (snd (main sdk argv p))) = constructions (sdkCalls p)
            else length (constructions (sdkCalls (snd (main sdk argv p))))
                   = Suc (length (constructions (sdkCalls p)))))"
proof (cases "pino sdk (DEFAULT_LOG_LEVEL p)")
  case (Some e)
  then show ?thesis
    by (simp add: main_logger_fails entry_def exitStatus_def process_exit_def console_error_def)
next
  case None
  note lg = createLogger_ok [OF None]
  show ?thesis
  proof (cases "drop 2 argv")
    case Nil
    with None show ?thesis
      by (simp add: main_def lg entry_def exitStatus_def getNetworkFromArgs_usage process_exit_def)
  next
    case (Cons a rest)
    show ?thesis
    proof (cases "a = []")
      case True
      with None Cons show ?thesis
        by (simp add: main_def lg entry_def exitStatus_def getNetworkFromArgs_usage process_exit_def)
    next
      case False
      show ?thesis
      proof (cases "a \<noteq> ''standalone'' \<and> a \<noteq> ''testnet''")
        case True
        with None Cons False show ?thesis
          by (simp add: main_def lg entry_def exitStatus_def getNetworkFromArgs_invalid
              process_exit_def)
      next
        case valid: False
        then obtain network where n: "a = NetworkType_text network"
          by (metis NetworkType_text.simps)
        have "length (constructions (sdkCalls (snd (main sdk argv p))))
                 = Suc (length (constructions (sdkCalls p)))"
          using main_valid_calls [of argv network rest sdk p] Cons n None
          by (auto simp add: constructions_append)
        with None Cons False valid show ?thesis by auto
      qed
    qed
  qed
qed

lemma demo_logger:
  "pino demoSdk (DEFAULT_LOG_LEVEL freshProcess) = None"
  "pino demoSdk (DEFAULT_LOG_LEVEL (freshProcess\<lparr>LOG_LEVEL := Some ''verbose''\<rparr>)) =
     Some (Thrown ''default level:verbose must be included in custom levels'')"
  by (simp_all add: demoSdk_def demoPino_def pinoLevels_def DEFAULT_LOG_LEVEL_def freshProcess_def)

text \<open>The concrete SDK and its wallets, field by field.\<close>

lemma demoSdk_simps:
  "buildFromSeed demoSdk args = Resolved (demoWallet (seedArg args))"
  "nativeToken demoSdk = ''native''"
  by (simp_all add: demoSdk_def)

lemma demoWallet_simps:
  "handle (demoWallet sd) = 1"
  "closeOutcome (demoWallet sd) = Rejected (Thrown ''socket closed'')"
  "stateObs (demoWallet sd) 0 =
     \<lparr>emissions = [(0, snapshot (''addr-'' @ sd) None False)], closing = StaysOpen\<rparr>"
  "stateObs (demoWallet sd) (Suc k) = lateStream (''addr-'' @ sd)"
  by (simp_all add: demoWallet_def)

lemma freshProcess_io:
  "stdout freshProcess = []" "stderr freshProcess = []" "exitCode freshProcess = None"
  "logged freshProcess = []" "sdkCalls freshProcess = []" "networkId freshProcess = Undeployed"
  by (simp_all add: freshProcess_def)

text \<open>
  The two scenarios of the specification, no argument and the argument \<open>mainnet\<close>, and a
  run with \<open>LOG_LEVEL=verbose\<close>, a level the logging library does not know.
\<close>

theorem main_usage_errors_witness:
  "main demoSdk [''node'', ''create-wallet''] freshProcess =
     (Exited 1, freshProcess\<lparr>stdout := stdout freshProcess @ usageText\<rparr>)
   \<and> exitStatus (entry demoSdk [''node'', ''create-wallet''] freshProcess) = Some 1
   \<and> main demoSdk [''node'', ''create-wallet'', ''mainnet''] freshProcess =
       (Exited 1, freshProcess\<lparr>stderr := stderr freshProcess @
           [''Invalid network: mainnet'', ''Valid options: standalone, testnet'']\<rparr>)
   \<and> exitStatus (entry demoSdk [''node'', ''create-wallet'', ''mainnet''] freshProcess) = Some 1
   \<and> entry demoSdk [''node'', ''create-wallet'', ''mainnet'']
         (freshProcess\<lparr>LOG_LEVEL := Some ''verbose''\<rparr>) =
       (Exited 1,
        freshProcess\<lparr>LOG_LEVEL := Some ''verbose'',
          stderr := [''Unhandled error in main: default level:verbose must be included in custom levels'']\<rparr>)"
  using main_usage_errors [where argv = "[''node'', ''create-wallet'']" and sdk = demoSdk and p = freshProcess]
    main_usage_errors [where argv = "[''node'', ''create-wallet'', ''mainnet'']" and sdk = demoSdk and p = freshProcess]
    main_usage_errors [where argv = "[''node'', ''create-wallet'', ''mainnet'']" and sdk = demoSdk
      and p = "freshProcess\<lparr>LOG_LEVEL := Some ''verbose''\<rparr>"]
  by (simp add: demo_logger jsError_text_def freshProcess_io exitStatus_def)

text \<open>
  C5 as stated fails for an argument that is present and empty: it is outside the two
  names, yet nothing goes to standard error and the usage text goes to standard output.
  It also fails when \<open>LOG_LEVEL\<close> holds a level the logging library does not know: with
  no argument at all, nothing goes to standard output and the unhandled error goes to
  standard error.
\<close>

theorem main_usage_errors_counterexample:
  "drop 2 [''node'', ''create-wallet'', ''''] = ['''']
   \<and> '''' \<notin> {''standalone'', ''testnet''}
   \<and> stderr (snd (entry demoSdk [''node'', ''create-wallet'', ''''] freshProcess)) = []
   \<and> stdout (snd (entry demoSdk [''node'', ''create-wallet'', ''''] freshProcess)) = usageText
   \<and> drop 2 [''node'', ''create-wallet''] = []
   \<and> stdout (snd (entry demoSdk [''node'', ''create-wallet'']
                     (freshProcess\<lparr>LOG_LEVEL := Some ''verbose''\<rparr>))) = []
   \<and> stderr (snd (entry demoSdk [''node'', ''create-wallet'']
                     (freshProcess\<lparr>LOG_LEVEL := Some ''verbose''\<rparr>))) =
       [''Unhandled error in main: default level:verbose must be included in custom levels'']"
  by (simp add: entry_def main_def createLogger_def getNetworkFromArgs_def io_defs usageText_def
      demoSdk_def demoPino_def pinoLevels_def DEFAULT_LOG_LEVEL_def jsError_text_def
      freshProcess_def)

text \<open>
  C2. \<open>getConfigForNetwork\<close> returns the four fixed endpoints of the variant (loopback
  addresses for standalone; the remote indexer and node with a loopback proof server for
  testnet) and sets the network identifier to \<open>Undeployed\<close> or \<open>TestNet\<close>. In \<open>main\<close>,
  with a valid argument, this write is the first call made on the SDK; the only wallet
  construction comes after it, with the selected endpoints and the matching identifier,
  and the identifier still matches when \<open>main\<close> ends. (When the logger cannot be
  created, \<open>main\<close> ends before it selects a configuration and makes no call on the SDK.)
\<close>

theorem getConfigForNetwork_sets_networkId_first:
  "getConfigForNetwork standalone p =
     (\<lparr>indexer = ''http://127.0.0.1:8088/api/v1/graphql'',
       indexerWS = ''ws://127.0.0.1:8088/api/v1/graphql/ws'',
       node = ''http://127.0.0.1:9944'',
       proofServer = ''http://127.0.0.1:6300''\<rparr>,
      p\<lparr>networkId := Undeployed, sdkCalls := sdkCalls p @ [SetNetworkId Undeployed]\<rparr>)
   \<and> getConfigForNetwork testnet p =
     (\<lparr>indexer = ''https://indexer.testnet-02.midnight.network/api/v1/graphql'',
       indexerWS = ''wss://indexer.testnet-02.midnight.network/api/v1/graphql/ws'',
       node = ''https://rpc.testnet-02.midnight.network'',
       proofServer = ''http://127.0.0.1:6300''\<rparr>,
      p\<lparr>networkId := TestNet, sdkCalls := sdkCalls p @ [SetNetworkId TestNet]\<rparr>)
   \<and> (case pino sdk (DEFAULT_LOG_LEVEL p) of
         None \<Rightarrow>
           (\<exists>calls.
              sdkCalls (snd (main sdk (exe # script # NetworkType_text network # others) p)) =
                sdkCalls p @ SetNetworkId (NetworkType_id network) # calls
              \<and> constructions calls =
                  [\<lparr>indexerUri = indexer (fst (getConfigForNetwork network p)),
                    indexerWsUri = indexerWS (fst (getConfigForNetwork network p)),
                    proverServerUri = proofServer (fst (getConfigForNetwork network p)),
                    substrateNodeUri = node (fst (getConfigForNetwork network p)),
                    seedArg = toHex (map (randomSource p) [0..<32]),
                    networkIdArg = NetworkType_id network,
                    minLogLevel = ''warn''\<rparr>])
           \<and> networkId (snd (main sdk (exe # script # NetworkType_text network # others) p)) =
               NetworkType_id network
       | Some e \<Rightarrow>
           sdkCalls (snd (main sdk (exe # script # NetworkType_text network # others) p)) =
             sdkCalls p)"
proof -
  let ?argv = "exe # script # NetworkType_text network # others"
  have d: "drop 2 ?argv = NetworkType_text network # others" by simp
  have 1: "getConfigForNetwork standalone p =
     (\<lparr>indexer = ''http://127.0.0.1:8088/api/v1/graphql'',
       indexerWS = ''ws://127.0.0.1:8088/api/v1/graphql/ws'',
       node = ''http://127.0.0.1:9944'',
       proofServer = ''http://127.0.0.1:6300''\<rparr>,
      p\<lparr>networkId := Undeployed, sdkCalls := sdkCalls p @ [SetNetworkId Undeployed]\<rparr>)"
    by (simp add: StandaloneConfig_def setNetworkId_def)
  have 2: "getConfigForNetwork testnet p =
     (\<lparr>indexer = ''https://indexer.testnet-02.midnight.network/api/v1/graphql'',
       indexerWS = ''wss://indexer.testnet-02.midnight.network/api/v1/graphql/ws'',
       node = ''https://rpc.testnet-02.midnight.network'',
       proofServer = ''http://127.0.0.1:6300''\<rparr>,
      p\<lparr>networkId := TestNet, sdkCalls := sdkCalls p @ [SetNetworkId TestNet]\<rparr>)"
    by (simp add: TestnetRemoteConfig_def setNetworkId_def)
  have 34: "(\<exists>calls.
              sdkCalls (snd (main sdk ?argv p)) =
                sdkCalls p @ SetNetworkId (NetworkType_id network) # calls
              \<and> constructions calls =
                  [\<lparr>indexerUri = indexer (fst (getConfigForNetwork network p)),
                    indexerWsUri = indexerWS (fst (getConfigForNetwork network p)),
                    proverServerUri = proofServer (fst (getConfigForNetwork network p)),
                    substrateNodeUri = node (fst (getConfigForNetwork network p)),
                    seedArg = toHex (map (randomSource p) [0..<32]),
                    networkIdArg = NetworkType_id network,
                    minLogLevel = ''warn''\<rparr>])
           \<and> networkId (snd (main sdk ?argv p)) = NetworkType_id network"
    if lg: "pino sdk (DEFAULT_LOG_LEVEL p) = None"
  proof -
  from main_valid_calls [OF d lg] obtain more0 where
    m: "sdkCalls (snd (main sdk ?argv p)) =
      sdkCalls p @ SetNetworkId (NetworkType_id network) #
        BuildFromSeed \<lparr>indexerUri = indexer (fst (getConfigForNetwork network p)),
                   indexerWsUri = indexerWS (fst (getConfigForNetwork network p)),
                   proverServerUri = proofServer (fst (getConfigForNetwork network p)),
                   substrateNodeUri = node (fst (getConfigForNetwork network p)),
                   seedArg = toHex (map (randomSource p) [0..<32]), networkIdArg = NetworkType_id network,
                   minLogLevel = ''warn''\<rparr> # more0" and c: "constructions more0 = []"
    by blast
  have 3: "\<exists>calls.
         sdkCalls (snd (main sdk ?argv p)) =
           sdkCalls p @ SetNetworkId (NetworkType_id network) # calls
         \<and> constructions calls =
             [\<lparr>indexerUri = indexer (fst (getConfigForNetwork network p)),
               indexerWsUri = indexerWS (fst (getConfigForNetwork network p)),
               proverServerUri = proofServer (fst (getConfigForNetwork network p)),
               substrateNodeUri = node (fst (getConfigForNetwork network p)),
               seedArg = toHex (map (randomSource p) [0..<32]),
               networkIdArg = NetworkType_id network,
               minLogLevel = ''warn''\<rparr>]"
    using m c by simp
  let ?cfg = "fst (getConfigForNetwork network p)"
  let ?q = "logger_info (NetworkArg network) ''Creating new wallet'' (snd (getConfigForNetwork network p))"
  obtain r q' where b: "buildFreshWallet sdk ?cfg ?q = (r, q')"
    by (cases "buildFreshWallet sdk ?cfg ?q") auto
  have "networkId q' = networkId ?q"
    using buildFreshWallet_unchanged [of sdk ?cfg ?q] b by simp
  then have n: "networkId q' = NetworkType_id network"
    by (simp add: getConfigForNetwork_process logger_info_def)
  have 4: "networkId (snd (main sdk ?argv p)) = NetworkType_id network"
    by (cases r)
       (simp_all add: main_valid [OF d lg] b n main_finally_unchanged fold_console_log
          logger_error_def)
  from 3 4 show ?thesis by (intro conjI)
  qed
  have 5: "sdkCalls (snd (main sdk ?argv p)) = sdkCalls p"
    if "pino sdk (DEFAULT_LOG_LEVEL p) = Some e" for e
    by (simp add: main_logger_fails [OF that])
  show ?thesis
  proof (cases "pino sdk (DEFAULT_LOG_LEVEL p)")
    case None
    with 1 2 34 [OF None] show ?thesis by simp
  next
    case (Some e)
    with 1 2 5 [OF Some] show ?thesis by simp
  qed
qed

lemma getNetworkFromArgs_cases:
  "(\<exists>network rest. drop 2 argv = NetworkType_text network # rest
       \<and> getNetworkFromArgs argv p = (Resolved network, p))
   \<or> (\<exists>p'. getNetworkFromArgs argv p = (Exited 1, p') \<and> sdkCalls p' = sdkCalls p
         \<and> exitCode p' = exitCode p)"
proof (cases "drop 2 argv")
  case Nil
  then show ?thesis by (simp add: getNetworkFromArgs_usage)
next
  case (Cons a rest)
  show ?thesis
  proof (cases "a = []")
    case True
    with Cons show ?thesis by (simp add: getNetworkFromArgs_usage)
  next
    case False
    show ?thesis
    proof (cases "a \<noteq> ''standalone'' \<and> a \<noteq> ''testnet''")
      case True
      with Cons False show ?thesis by (simp add: getNetworkFromArgs_invalid)
    next
      case valid: False
      then obtain network where n: "a = NetworkType_text network"
        by (metis NetworkType_text.simps)
      with Cons show ?thesis
        using getNetworkFromArgs_valid_drop [of argv network rest p] by blast
    qed
  qed
qed

text \<open>
  C3. The handles on which \<open>main\<close> calls \<open>close\<close> are: the handle returned by
  \<open>buildFreshWallet\<close>, once, when that call returned one, and none otherwise (the
  logger could not be created, or the arguments were rejected, or the construction threw,
  or it never returned). When
  \<open>close\<close> rejects, \<open>main\<close> still returns normally: the warning is the only trace of
  the failure, \<open>process.exitCode\<close> is what it was, and the handler for a rejection of
  \<open>main\<close> does not run. In every execution \<open>process.exitCode\<close> is set to 1 exactly when
  the construction threw, whatever \<open>close\<close> does.
\<close>

theorem main_closes_wallet_once:
  "let built =
        (case createLogger sdk p of
           (Resolved logger, p0) \<Rightarrow>
             (case getNetworkFromArgs argv p0 of
                (Resolved network, p1) \<Rightarrow>
                  Some (network,
                        buildFreshWallet sdk (fst (getConfigForNetwork network p1))
                          (logger_info (NetworkArg network) ''Creating new wallet''
                             (snd (getConfigForNetwork network p1))))
              | (Rejected e, p1) \<Rightarrow> None
              | (Pending, p1) \<Rightarrow> None
              | (Exited n, p1) \<Rightarrow> None)
         | (Rejected e, p0) \<Rightarrow> None
         | (Pending, p0) \<Rightarrow> None
         | (Exited n, p0) \<Rightarrow> None)
   in closeAttempts (sdkCalls (snd (main sdk argv p))) =
        closeAttempts (sdkCalls p) @
          (case built of Some (network, Resolved (w, sd), q) \<Rightarrow> [handle w] | _ \<Rightarrow> [])
      \<and> exitCode (snd (main sdk argv p)) =
          (case built of Some (network, Rejected e, q) \<Rightarrow> Some 1 | _ \<Rightarrow> exitCode p)
      \<and> (\<forall>network w sd q e.
            built = Some (network, Resolved (w, sd), q) \<and> closeOutcome w = Rejected e \<longrightarrow>
              main sdk argv p =
                (Resolved (),
                 q\<lparr>stdout := stdout q @ banner network sd,
                   sdkCalls := sdkCalls q @ [Close (handle w)],
                   logged := logged q @ [LogWarn (CloseErrArg e) ''Failed to close wallet cleanly'']\<rparr>)
              \<and> entry sdk argv p = main sdk argv p)"
proof -
  consider (nologger) err where "pino sdk (DEFAULT_LOG_LEVEL p) = Some err"
    | (valid) network rest where "pino sdk (DEFAULT_LOG_LEVEL p) = None"
      "drop 2 argv = NetworkType_text network # rest"
      "getNetworkFromArgs argv p = (Resolved network, p)"
    | (exit) p' where "pino sdk (DEFAULT_LOG_LEVEL p) = None"
      "getNetworkFromArgs argv p = (Exited 1, p')" "sdkCalls p' = sdkCalls p"
      "exitCode p' = exitCode p"
    using getNetworkFromArgs_cases [of argv p] by (cases "pino sdk (DEFAULT_LOG_LEVEL p)") blast+
  then show ?thesis
  proof cases
    case nologger
    then show ?thesis by (simp add: main_logger_fails createLogger_def)
  next
    case exit
    then show ?thesis by (simp add: main_def createLogger_def)
  next
    case valid
    note lg = createLogger_ok [OF valid(1)]
    note mv = main_valid [OF valid(2) valid(1)]
    let ?cfg = "fst (getConfigForNetwork network p)"
    let ?q = "logger_info (NetworkArg network) ''Creating new wallet'' (snd (getConfigForNetwork network p))"
    obtain r q' where b: "buildFreshWallet sdk ?cfg ?q = (r, q')"
      by (cases "buildFreshWallet sdk ?cfg ?q") auto
    from buildFreshWallet_calls [of sdk ?cfg ?q] b obtain calls where
      c: "sdkCalls q' = sdkCalls ?q @ calls" "closeAttempts calls = []"
      by auto
    have q: "closeAttempts (sdkCalls ?q) = closeAttempts (sdkCalls p)" "exitCode ?q = exitCode p"
      by (simp_all add: getConfigForNetwork_process logger_info_def closeAttempts_append)
    have e: "exitCode q' = exitCode p"
      using buildFreshWallet_unchanged [of sdk ?cfg ?q] b q by simp
    have ca: "closeAttempts (sdkCalls q') = closeAttempts (sdkCalls p)"
      by (simp add: c q closeAttempts_append)
    show ?thesis
    proof (cases r)
      case (Resolved result)
      obtain w sd where result: "result = (w, sd)" by (cases result)
      have m: "main sdk argv p =
                (Resolved (),
                 q'\<lparr>stdout := stdout q' @ banner network sd,
                   sdkCalls := sdkCalls q' @ [Close (handle w)],
                   logged := logged q' @ [LogWarn (CloseErrArg e) ''Failed to close wallet cleanly'']\<rparr>)"
        if "closeOutcome w = Rejected e" for e
        using that b Resolved result
        by (simp add: mv main_finally_def wallet_close_def logger_warn_def
            fold_console_log)
      have en: "entry sdk argv p = main sdk argv p" if "closeOutcome w = Rejected e" for e
        by (simp add: entry_def m [OF that])
      show ?thesis
        using valid(3) b Resolved result ca e m en
        by (simp add: lg mv main_finally_calls main_finally_unchanged
            closeAttempts_append sdkCalls_fold_console_log fold_console_log)
    next
      case (Rejected err)
      show ?thesis
        using valid(3) b Rejected ca e
        by (simp add: lg mv main_finally_calls main_finally_unchanged
            closeAttempts_append logger_error_def)
    next
      case Pending
      show ?thesis
        using valid(3) b Pending ca e by (simp add: lg mv)
    next
      case (Exited n)
      show ?thesis
        using valid(3) b Exited ca e by (simp add: lg mv)
    qed
  qed
qed

theorem main_closes_wallet_once_witness:
  "closeAttempts (sdkCalls (snd (main demoSdk [''node'', ''create-wallet'', ''standalone''] freshProcess))) = [1]
   \<and> fst (main demoSdk [''node'', ''create-wallet'', ''standalone''] freshProcess) = Resolved ()
   \<and> exitCode (snd (main demoSdk [''node'', ''create-wallet'', ''standalone''] freshProcess)) = None
   \<and> last (logged (snd (main demoSdk [''node'', ''create-wallet'', ''standalone''] freshProcess))) =
       LogWarn (CloseErrArg (Thrown ''socket closed'')) ''Failed to close wallet cleanly''
   \<and> entry demoSdk [''node'', ''create-wallet'', ''standalone''] freshProcess =
       main demoSdk [''node'', ''create-wallet'', ''standalone''] freshProcess"
proof -
  let ?argv = "[''node'', ''create-wallet'', ''standalone'']"
  let ?sd = "toHex (map (randomSource freshProcess) [0..<32])"
  let ?cfg = "fst (StandaloneConfig freshProcess)"
  let ?q = "logger_info (NetworkArg standalone) ''Creating new wallet''
              (snd (StandaloneConfig freshProcess))"
  note T = main_closes_wallet_once
    [where argv = ?argv and sdk = demoSdk and p = freshProcess, unfolded Let_def]
  have lg: "createLogger demoSdk freshProcess = (Resolved (), freshProcess)"
    by (rule createLogger_ok) (rule demo_logger)
  have g: "getNetworkFromArgs ?argv freshProcess = (Resolved standalone, freshProcess)"
    by (simp add: getNetworkFromArgs_def)
  obtain p' where b: "buildFreshWallet demoSdk ?cfg ?q = (Resolved (demoWallet ?sd, ?sd), p')"
    and p': "exitCode p' = None" "closeAttempts (sdkCalls p') = []"
    by (simp add: buildFreshWallet_eq Let_def demoSdk_simps demoWallet_simps firstValueFrom_def
        StandaloneConfig_def setNetworkId_def logger_info_def freshProcess_io)
  show ?thesis
    using T by (simp add: lg g b p' demoWallet_simps freshProcess_io closeAttempts_append)
qed
section \<open>Properties of the wallet builders\<close>

lemma hexDigit_in: "d < 16 \<Longrightarrow> hexDigit d \<in> set ''0123456789abcdef''"
  unfolding hexDigit_def by (rule nth_mem) simp

lemma toHex_length: "length (toHex bytes) = 2 * length bytes"
  by (induction bytes) (simp_all add: toHex_def)

lemma toHex_chars: "set (toHex bytes) \<subseteq> set ''0123456789abcdef''"
proof -
  have "hexDigit (unat b div 16) \<in> set ''0123456789abcdef''
      \<and> hexDigit (unat b mod 16) \<in> set ''0123456789abcdef''" for b :: "8 word"
  proof -
    have "unat b < 256" using unsigned_less [of b] by simp
    then have "unat b div 16 < 16" "unat b mod 16 < 16" by simp_all
    then show ?thesis by (simp only: hexDigit_in)
  qed
  then show ?thesis
    unfolding toHex_def by (induction bytes) auto
qed

lemma hexDigit_inj: "d < 16 \<Longrightarrow> e < 16 \<Longrightarrow> hexDigit d = hexDigit e \<Longrightarrow> d = e"
proof -
  have "distinct ''0123456789abcdef''" by simp
  then show "d < 16 \<Longrightarrow> e < 16 \<Longrightarrow> hexDigit d = hexDigit e \<Longrightarrow> d = e"
    unfolding hexDigit_def by (simp add: nth_eq_iff_index_eq)
qed

lemma hexByte_inj:
  fixes b c :: "8 word"
  assumes "hexDigit (unat b div 16) = hexDigit (unat c div 16)"
    and "hexDigit (unat b mod 16) = hexDigit (unat c mod 16)"
  shows "b = c"
proof -
  have lb: "unat b < 256" using unsigned_less [of b] by simp
  have lc: "unat c < 256" using unsigned_less [of c] by simp
  from lb lc have "unat b div 16 < 16" "unat c div 16 < 16" by simp_all
  with assms(1) have d: "unat b div 16 = unat c div 16" by (rule hexDigit_inj [rotated 2])
  have "unat b mod 16 < 16" "unat c mod 16 < 16" by simp_all
  with assms(2) have m: "unat b mod 16 = unat c mod 16" by (rule hexDigit_inj [rotated 2])
  from d m have "unat b = unat c" by (metis div_mult_mod_eq)
  then show ?thesis by (simp add: word_unat_eq_iff)
qed

lemma toHex_Cons:
  "toHex (b # bytes) = hexDigit (unat b div 16) # hexDigit (unat b mod 16) # toHex bytes"
  by (simp add: toHex_def)

lemma toHex_inj: "toHex bs = toHex cs \<Longrightarrow> bs = cs"
proof (induction bs arbitrary: cs)
  case Nil
  then show ?case by (cases cs) (simp_all add: toHex_def)
next
  case (Cons b bs)
  show ?case
  proof (cases cs)
    case Nil
    with Cons.prems show ?thesis by (simp add: toHex_def)
  next
    case (Cons c cs')
    with Cons.prems have "hexDigit (unat b div 16) = hexDigit (unat c div 16)"
      "hexDigit (unat b mod 16) = hexDigit (unat c mod 16)" "toHex bs = toHex cs'"
      by (simp_all add: toHex_Cons)
    with Cons.IH [of cs'] hexByte_inj [of b c] Cons show ?thesis by simp
  qed
qed

lemma buildWalletFromSeed_eq:
  "buildWalletFromSeed sdk cfg sd p =
     (let args = \<lparr>indexerUri = indexer cfg, indexerWsUri = indexerWS cfg,
                   proverServerUri = proofServer cfg, substrateNodeUri = node cfg,
                   seedArg = sd, networkIdArg = networkId p, minLogLevel = ''warn''\<rparr>
      in case buildFromSeed sdk args of
           Resolved w \<Rightarrow>
             (let p2 = p\<lparr>sdkCalls := sdkCalls p @ [BuildFromSeed args, Start (handle w), State (handle w)]\<rparr>
              in case firstValueFrom (stateObs w (count_list (sdkCalls p) (State (handle w)))) of
                   Resolved s \<Rightarrow>
                     (Resolved w,
                      p2\<lparr>logged := logged p @
                         [LogInfo NoArg (''Wallet seed is: '' @ sd),
                          LogInfo NoArg (''Wallet address is: '' @ address s),
                          LogInfo NoArg (''Wallet balance is: '' @
                             showNat (case balances s (nativeToken sdk) of None \<Rightarrow> 0 | Some b \<Rightarrow> b))]\<rparr>)
                 | Rejected e \<Rightarrow> (Rejected e, p2)
                 | Pending \<Rightarrow> (Pending, p2)
                 | Exited n \<Rightarrow> (Exited n, p2))
         | Rejected e \<Rightarrow> (Rejected e, p\<lparr>sdkCalls := sdkCalls p @ [BuildFromSeed args]\<rparr>)
         | Pending \<Rightarrow> (Pending, p\<lparr>sdkCalls := sdkCalls p @ [BuildFromSeed args]\<rparr>)
         | Exited n \<Rightarrow> (Exited n, p\<lparr>sdkCalls := sdkCalls p @ [BuildFromSeed args]\<rparr>))"
  by (simp add: buildWalletFromSeed_def sdk_defs io_defs Let_def split: Outcome.splits)

lemma firstValueFrom_Resolved:
  "firstValueFrom obs = Resolved x \<Longrightarrow> \<exists>t rest. emissions obs = (t, x) # rest"
  by (auto simp add: firstValueFrom_def split: list.splits Closing.splits)

lemma firstValueFrom_Cons: "emissions obs = (t, x) # rest \<Longrightarrow> firstValueFrom obs = Resolved x"
  by (simp add: firstValueFrom_def)

text \<open>
  C6. The seed of \<open>buildFreshWallet\<close> is the hexadecimal text of the next 32 bytes of
  the platform's random generator, which the call uses up (a later call gets the bytes
  that follow): 64 characters, all of them hexadecimal digits, from which the 32 bytes
  can be read back. When the SDK constructs a wallet from the four endpoints of the
  configuration and that seed, and the wallet's state stream delivers a first snapshot,
  \<open>buildFreshWallet\<close> starts the wallet, subscribes to the stream once, logs seed,
  address and balance (0 for an absent entry) and returns the handle with the seed,
  whatever the snapshot's balance is. In \<open>main\<close>, on that path and with a logger, the
  banner with the network name and the seed is what is written to standard output, and
  if closing the wallet resolves or rejects, \<open>main\<close> returns and a process that started
  without an exit code ends with status 0.
\<close>

theorem buildFreshWallet_returns_after_first_state:
  assumes build: "buildFromSeed sdk
            \<lparr>indexerUri = indexer cfg, indexerWsUri = indexerWS cfg,
             proverServerUri = proofServer cfg, substrateNodeUri = node cfg,
             seedArg = toHex (map (randomSource p) [0..<32]), networkIdArg = networkId p,
             minLogLevel = ''warn''\<rparr> = Resolved w"
    and first: "emissions (stateObs w (count_list (sdkCalls p) (State (handle w)))) = (t, s) # later"
  shows "length (toHex (map (randomSource p) [0..<32])) = 64
     \<and> set (toHex (map (randomSource p) [0..<32])) \<subseteq> set ''0123456789abcdef''
     \<and> (\<forall>bytes. toHex bytes = toHex (map (randomSource p) [0..<32]) \<longrightarrow>
            bytes = map (randomSource p) [0..<32])
     \<and> buildFreshWallet sdk cfg p =
         (Resolved (w, toHex (map (randomSource p) [0..<32])),
          p\<lparr>randomSource := (\<lambda>i. randomSource p (i + 32)),
            sdkCalls := sdkCalls p @
               [BuildFromSeed \<lparr>indexerUri = indexer cfg, indexerWsUri = indexerWS cfg,
                   proverServerUri = proofServer cfg, substrateNodeUri = node cfg,
                   seedArg = toHex (map (randomSource p) [0..<32]), networkIdArg = networkId p,
                   minLogLevel = ''warn''\<rparr>,
                Start (handle w), State (handle w)],
            logged := logged p @
               [LogInfo NoArg (''Wallet seed is: '' @ toHex (map (randomSource p) [0..<32])),
                LogInfo NoArg (''Wallet address is: '' @ address s),
                LogInfo NoArg (''Wallet balance is: '' @
                   showNat (case balances s (nativeToken sdk) of None \<Rightarrow> 0 | Some b \<Rightarrow> b))]\<rparr>)
     \<and> (cfg = fst (getConfigForNetwork network q)
          \<and> p = logger_info (NetworkArg network) ''Creating new wallet'' (snd (getConfigForNetwork network q))
          \<and> pino sdk (DEFAULT_LOG_LEVEL q) = None
          \<and> exitCode q = None
          \<and> (closeOutcome w = Resolved () \<or> (\<exists>e. closeOutcome w = Rejected e))
        \<longrightarrow> stdout (snd (main sdk (exe # script # NetworkType_text network # others) q)) =
              stdout q @ banner network (toHex (map (randomSource q) [0..<32]))
            \<and> ''  Network: '' @ NetworkType_text network
                 \<in> set (banner network (toHex (map (randomSource q) [0..<32])))
            \<and> ''  Seed: '' @ toHex (map (randomSource q) [0..<32])
                 \<in> set (banner network (toHex (map (randomSource q) [0..<32])))
            \<and> fst (main sdk (exe # script # NetworkType_text network # others) q) = Resolved ()
            \<and> exitStatus (entry sdk (exe # script # NetworkType_text network # others) q) = Some 0)"
proof -
  let ?sd = "toHex (map (randomSource p) [0..<32])"
  let ?sq = "toHex (map (randomSource q) [0..<32])"
  let ?argv = "exe # script # NetworkType_text network # others"
  have fv: "firstValueFrom (stateObs w (count_list (sdkCalls p) (State (handle w)))) = Resolved s"
    using first by (rule firstValueFrom_Cons)
  have len: "length ?sd = 64"
    by (simp add: toHex_length)
  have hex: "set ?sd \<subseteq> set ''0123456789abcdef''"
    by (rule toHex_chars)
  have rd: "\<forall>bytes. toHex bytes = ?sd \<longrightarrow> bytes = map (randomSource p) [0..<32]"
    by (intro allI impI) (rule toHex_inj)
  have bf: "buildFreshWallet sdk cfg p =
         (Resolved (w, ?sd),
          p\<lparr>randomSource := (\<lambda>i. randomSource p (i + 32)),
            sdkCalls := sdkCalls p @
               [BuildFromSeed \<lparr>indexerUri = indexer cfg, indexerWsUri = indexerWS cfg,
                   proverServerUri = proofServer cfg, substrateNodeUri = node cfg,
                   seedArg = ?sd, networkIdArg = networkId p,
                   minLogLevel = ''warn''\<rparr>,
                Start (handle w), State (handle w)],
            logged := logged p @
               [LogInfo NoArg (''Wallet seed is: '' @ ?sd),
                LogInfo NoArg (''Wallet address is: '' @ address s),
                LogInfo NoArg (''Wallet balance is: '' @
                   showNat (case balances s (nativeToken sdk) of None \<Rightarrow> 0 | Some b \<Rightarrow> b))]\<rparr>)"
    by (simp add: buildFreshWallet_eq Let_def build fv)
  have cli: "stdout (snd (main sdk ?argv q)) = stdout q @ banner network ?sq
            \<and> fst (main sdk ?argv q) = Resolved ()
            \<and> exitStatus (entry sdk ?argv q) = Some 0"
    if c: "cfg = fst (getConfigForNetwork network q)"
      and p: "p = logger_info (NetworkArg network) ''Creating new wallet'' (snd (getConfigForNetwork network q))"
      and lg: "pino sdk (DEFAULT_LOG_LEVEL q) = None"
      and ex: "exitCode q = None"
      and cl: "closeOutcome w = Resolved () \<or> (\<exists>e. closeOutcome w = Rejected e)"
  proof -
    have d: "drop 2 ?argv = NetworkType_text network # others" by simp
    have sp: "stdout p = stdout q" "exitCode p = None" "randomSource p = randomSource q"
      using ex by (simp_all add: p getConfigForNetwork_process logger_info_def)
    from cl show ?thesis
    proof
      assume "closeOutcome w = Resolved ()"
      then show ?thesis
        using bf [unfolded c p] sp [unfolded p]
        by (simp add: main_valid [OF d lg] entry_def exitStatus_def main_finally_def
            wallet_close_def logger_info_def fold_console_log)
    next
      assume "\<exists>e. closeOutcome w = Rejected e"
      then obtain e where "closeOutcome w = Rejected e" ..
      then show ?thesis
        using bf [unfolded c p] sp [unfolded p]
        by (simp add: main_valid [OF d lg] entry_def exitStatus_def main_finally_def
            wallet_close_def logger_info_def logger_warn_def fold_console_log)
    qed
  qed
  have bn: "''  Network: '' @ NetworkType_text network \<in> set (banner network ?sq)"
      "''  Seed: '' @ ?sq \<in> set (banner network ?sq)"
    by (simp_all add: banner_def)
  have imp: "cfg = fst (getConfigForNetwork network q)
          \<and> p = logger_info (NetworkArg network) ''Creating new wallet'' (snd (getConfigForNetwork network q))
          \<and> pino sdk (DEFAULT_LOG_LEVEL q) = None
          \<and> exitCode q = None
          \<and> (closeOutcome w = Resolved () \<or> (\<exists>e. closeOutcome w = Rejected e))
        \<longrightarrow> stdout (snd (main sdk ?argv q)) = stdout q @ banner network ?sq
            \<and> ''  Network: '' @ NetworkType_text network \<in> set (banner network ?sq)
            \<and> ''  Seed: '' @ ?sq \<in> set (banner network ?sq)
            \<and> fst (main sdk ?argv q) = Resolved ()
            \<and> exitStatus (entry sdk ?argv q) = Some 0"
  proof (intro impI, elim conjE)
    assume a: "cfg = fst (getConfigForNetwork network q)"
      "p = logger_info (NetworkArg network) ''Creating new wallet'' (snd (getConfigForNetwork network q))"
      "pino sdk (DEFAULT_LOG_LEVEL q) = None"
      "exitCode q = None"
      "closeOutcome w = Resolved () \<or> (\<exists>e. closeOutcome w = Rejected e)"
    from cli [OF a] bn show "stdout (snd (main sdk ?argv q)) = stdout q @ banner network ?sq
            \<and> ''  Network: '' @ NetworkType_text network \<in> set (banner network ?sq)
            \<and> ''  Seed: '' @ ?sq \<in> set (banner network ?sq)
            \<and> fst (main sdk ?argv q) = Resolved ()
            \<and> exitStatus (entry sdk ?argv q) = Some 0"
      by (intro conjI) (elim conjE, assumption)+
  qed
  from len hex rd bf imp
  show ?thesis by (intro conjI)
qed

text \<open>
  The scenario of the specification: \<open>create-wallet standalone\<close> against an SDK that
  builds the wallet and delivers a first snapshot without a native balance. The seed is
  the text of the bytes 0, 7, 14, ... of this process, and a second build in the process
  that the first one leaves gets another seed.
\<close>

theorem buildFreshWallet_returns_after_first_state_witness:
  "buildFreshWallet demoSdk (fst (getConfigForNetwork standalone freshProcess))
       (logger_info (NetworkArg standalone) ''Creating new wallet''
          (snd (getConfigForNetwork standalone freshProcess))) =
     (Resolved (demoWallet (toHex (map (randomSource freshProcess) [0..<32])),
                toHex (map (randomSource freshProcess) [0..<32])),
      freshProcess
        \<lparr>randomSource := (\<lambda>i. randomSource freshProcess (i + 32)),
         logged := [LogInfo (NetworkArg standalone) ''Creating new wallet'',
                 LogInfo NoArg (''Wallet seed is: '' @ toHex (map (randomSource freshProcess) [0..<32])),
                 LogInfo NoArg (''Wallet address is: addr-''
                                  @ toHex (map (randomSource freshProcess) [0..<32])),
                 LogInfo NoArg ''Wallet balance is: 0''],
         sdkCalls := [SetNetworkId Undeployed,
                   BuildFromSeed \<lparr>indexerUri = ''http://127.0.0.1:8088/api/v1/graphql'',
                      indexerWsUri = ''ws://127.0.0.1:8088/api/v1/graphql/ws'',
                      proverServerUri = ''http://127.0.0.1:6300'',
                      substrateNodeUri = ''http://127.0.0.1:9944'',
                      seedArg = toHex (map (randomSource freshProcess) [0..<32]),
                      networkIdArg = Undeployed, minLogLevel = ''warn''\<rparr>,
                   Start 1, State 1]\<rparr>)
   \<and> length (toHex (map (randomSource freshProcess) [0..<32])) = 64
   \<and> take 8 (toHex (map (randomSource freshProcess) [0..<32])) = ''00070e15''
   \<and> take 8 (toHex (map (randomSource (snd (buildFreshWallet demoSdk
              (fst (getConfigForNetwork standalone freshProcess))
              (logger_info (NetworkArg standalone) ''Creating new wallet''
                 (snd (getConfigForNetwork standalone freshProcess)))))) [0..<32])) = ''e0e7eef5''
   \<and> stdout (snd (main demoSdk [''node'', ''create-wallet'', ''standalone''] freshProcess)) =
       banner standalone (toHex (map (randomSource freshProcess) [0..<32]))
   \<and> ''  Network: standalone''
        \<in> set (banner standalone (toHex (map (randomSource freshProcess) [0..<32])))
   \<and> exitStatus (entry demoSdk [''node'', ''create-wallet'', ''standalone''] freshProcess) = Some 0"
proof -
  let ?sd = "toHex (map (randomSource freshProcess) [0..<32])"
  let ?cfg = "fst (getConfigForNetwork standalone freshProcess)"
  let ?p = "logger_info (NetworkArg standalone) ''Creating new wallet''
          (snd (getConfigForNetwork standalone freshProcess))"
  have rs: "randomSource ?p = randomSource freshProcess"
    by (simp add: logger_info_def StandaloneConfig_def setNetworkId_def)
  have build: "buildFromSeed demoSdk
            \<lparr>indexerUri = indexer ?cfg, indexerWsUri = indexerWS ?cfg,
             proverServerUri = proofServer ?cfg, substrateNodeUri = node ?cfg,
             seedArg = toHex (map (randomSource ?p) [0..<32]), networkIdArg = networkId ?p,
             minLogLevel = ''warn''\<rparr> = Resolved (demoWallet ?sd)"
    by (simp add: demoSdk_simps logger_info_def StandaloneConfig_def setNetworkId_def)
  have first: "emissions (stateObs (demoWallet ?sd)
                 (count_list (sdkCalls ?p) (State (handle (demoWallet ?sd))))) =
               (0, snapshot (''addr-'' @ ?sd) None False) # []"
    by (simp add: demoWallet_simps logger_info_def StandaloneConfig_def setNetworkId_def
        freshProcess_io)
  have ex: "exitCode freshProcess = None"
    by (simp add: freshProcess_io)
  have cl: "closeOutcome (demoWallet ?sd) = Resolved () \<or> (\<exists>e. closeOutcome (demoWallet ?sd) = Rejected e)"
    by (simp add: demoWallet_simps)
  have sh: "showNat 0 = ''0''"
    by (simp add: showNat.simps digitChar_def)
  have tk: "take 8 ?sd = ''00070e15''"
    by (simp add: freshProcess_def toHex_def hexDigit_def upt_conv_Cons)
  have tk2: "take 8 (toHex (map (\<lambda>i. randomSource freshProcess (i + 32)) [0..<32])) = ''e0e7eef5''"
    by (simp add: freshProcess_def toHex_def hexDigit_def upt_conv_Cons)
  show ?thesis
    using buildFreshWallet_returns_after_first_state [OF build first,
        where network = standalone and q = freshProcess and exe = "''node''"
          and script = "''create-wallet''" and others = "[]"] ex cl demo_logger(1) tk tk2
    by (simp add: rs sh demoSdk_simps demoWallet_simps snapshot_def logger_info_def
          StandaloneConfig_def setNetworkId_def freshProcess_io)
qed

text \<open>
  C8, as amended. Suppose the address in every snapshot of a wallet that the SDK builds
  is a function \<open>derive\<close> of the arguments the wallet was built with, and the process-wide
  network identifier has the same value at both builds. Then a fresh build that returned
  the seed \<open>S\<close> and a later \<open>buildWalletFromSeed\<close> with the same configuration and \<open>S\<close>
  report the same address: each logs the seed \<open>S\<close>, then the address derived from the
  endpoints of the configuration, \<open>S\<close> and that identifier, then its balance.
\<close>

theorem rebuilt_wallet_reports_same_address:
  assumes derive: "\<forall>args w k t s. buildFromSeed sdk args = Resolved w \<longrightarrow>
                     (t, s) \<in> set (emissions (stateObs w k)) \<longrightarrow> address s = derive args"
    and fresh: "buildFreshWallet sdk cfg p = (Resolved (w, S), p')"
    and rebuilt: "buildWalletFromSeed sdk cfg S q = (Resolved w', q')"
    and same: "networkId q = networkId p"
  shows "\<exists>b b'.
           logged p' = logged p @
             [LogInfo NoArg (''Wallet seed is: '' @ S),
              LogInfo NoArg (''Wallet address is: '' @
                 derive \<lparr>indexerUri = indexer cfg, indexerWsUri = indexerWS cfg,
                         proverServerUri = proofServer cfg, substrateNodeUri = node cfg,
                         seedArg = S, networkIdArg = networkId p, minLogLevel = ''warn''\<rparr>),
              LogInfo NoArg (''Wallet balance is: '' @ showNat b)]
         \<and> logged q' = logged q @
             [LogInfo NoArg (''Wallet seed is: '' @ S),
              LogInfo NoArg (''Wallet address is: '' @
                 derive \<lparr>indexerUri = indexer cfg, indexerWsUri = indexerWS cfg,
                         proverServerUri = proofServer cfg, substrateNodeUri = node cfg,
                         seedArg = S, networkIdArg = networkId p, minLogLevel = ''warn''\<rparr>),
              LogInfo NoArg (''Wallet balance is: '' @ showNat b')]"
proof -
  let ?args = "\<lambda>sd r. \<lparr>indexerUri = indexer cfg, indexerWsUri = indexerWS cfg,
                   proverServerUri = proofServer cfg, substrateNodeUri = node cfg,
                   seedArg = sd, networkIdArg = networkId r, minLogLevel = ''warn''\<rparr>"
  from fresh obtain s where
    f1: "buildFromSeed sdk (?args (toHex (map (randomSource p) [0..<32])) p) = Resolved w"
    and f2: "firstValueFrom (stateObs w (count_list (sdkCalls p) (State (handle w)))) = Resolved s"
    and f3: "S = toHex (map (randomSource p) [0..<32])"
    and f4: "logged p' = logged p @
             [LogInfo NoArg (''Wallet seed is: '' @ S),
              LogInfo NoArg (''Wallet address is: '' @ address s),
              LogInfo NoArg (''Wallet balance is: '' @
                 showNat (case balances s (nativeToken sdk) of None \<Rightarrow> 0 | Some b \<Rightarrow> b))]"
    by (auto simp add: buildFreshWallet_eq Let_def split: Outcome.splits)
  from rebuilt obtain s' where
    r1: "buildFromSeed sdk (?args S q) = Resolved w'"
    and r2: "firstValueFrom (stateObs w' (count_list (sdkCalls q) (State (handle w')))) = Resolved s'"
    and r4: "logged q' = logged q @
             [LogInfo NoArg (''Wallet seed is: '' @ S),
              LogInfo NoArg (''Wallet address is: '' @ address s'),
              LogInfo NoArg (''Wallet balance is: '' @
                 showNat (case balances s' (nativeToken sdk) of None \<Rightarrow> 0 | Some b \<Rightarrow> b))]"
    by (auto simp add: buildWalletFromSeed_eq Let_def split: Outcome.splits)
  from firstValueFrom_Resolved [OF f2] obtain t where
    "(t, s) \<in> set (emissions (stateObs w (count_list (sdkCalls p) (State (handle w)))))"
    by (metis list.set_intros(1))
  with derive f1 f3 have a: "address s = derive (?args S p)" by auto
  from firstValueFrom_Resolved [OF r2] obtain t' where
    "(t', s') \<in> set (emissions (stateObs w' (count_list (sdkCalls q) (State (handle w')))))"
    by (metis list.set_intros(1))
  with derive r1 have "address s' = derive (?args S q)" by auto
  with same have a': "address s' = derive (?args S p)" by simp
  show ?thesis
    using f4 r4 a a' by auto
qed

lemma netSdk_simps:
  "buildFromSeed netSdk args =
     Resolved \<lparr>handle = 3,
        stateObs = (\<lambda>k. \<lparr>emissions =
                             [(0, snapshot (networkPrefix (networkIdArg args) @ seedArg args)
                                    None False)],
                          closing = StaysOpen\<rparr>),
        closeOutcome = Resolved ()\<rparr>"
  "nativeToken netSdk = ''native''"
  by (simp_all add: netSdk_def)

lemma netSdk_fresh:
  "buildFreshWallet netSdk cfg p =
     (Resolved (\<lparr>handle = 3,
          stateObs = (\<lambda>k. \<lparr>emissions =
                               [(0, snapshot (networkPrefix (networkId p)
                                               @ toHex (map (randomSource p) [0..<32]))
                                      None False)],
                            closing = StaysOpen\<rparr>),
          closeOutcome = Resolved ()\<rparr>, toHex (map (randomSource p) [0..<32])),
      p\<lparr>randomSource := (\<lambda>i. randomSource p (i + 32)),
        sdkCalls := sdkCalls p @
          [BuildFromSeed \<lparr>indexerUri = indexer cfg, indexerWsUri = indexerWS cfg,
              proverServerUri = proofServer cfg, substrateNodeUri = node cfg,
              seedArg = toHex (map (randomSource p) [0..<32]), networkIdArg = networkId p,
              minLogLevel = ''warn''\<rparr>,
           Start 3, State 3],
        logged := logged p @
          [LogInfo NoArg (''Wallet seed is: '' @ toHex (map (randomSource p) [0..<32])),
           LogInfo NoArg (''Wallet address is: '' @ networkPrefix (networkId p)
                            @ toHex (map (randomSource p) [0..<32])),
           LogInfo NoArg ''Wallet balance is: 0'']\<rparr>)"
  by (simp add: buildFreshWallet_eq Let_def netSdk_simps firstValueFrom_def snapshot_def
      showNat.simps digitChar_def)

lemma netSdk_rebuilt:
  "logged (snd (buildWalletFromSeed netSdk cfg sd q)) =
     logged q @
       [LogInfo NoArg (''Wallet seed is: '' @ sd),
        LogInfo NoArg (''Wallet address is: '' @ networkPrefix (networkId q) @ sd),
        LogInfo NoArg ''Wallet balance is: 0'']
   \<and> (\<exists>w q'. buildWalletFromSeed netSdk cfg sd q = (Resolved w, q'))"
  by (simp add: buildWalletFromSeed_eq Let_def netSdk_simps firstValueFrom_def snapshot_def
      showNat.simps digitChar_def)

text \<open>
  An SDK that formats the address from the network identifier and the seed: a fresh
  build in a process where \<open>TestnetRemoteConfig\<close> was constructed, and a rebuild in the
  process that the fresh build leaves.
\<close>

theorem rebuilt_wallet_reports_same_address_witness:
  "\<exists>b b'.
     logged (snd (buildFreshWallet netSdk (fst (TestnetRemoteConfig freshProcess))
                  (snd (TestnetRemoteConfig freshProcess)))) =
       [LogInfo NoArg (''Wallet seed is: '' @ toHex (map (randomSource freshProcess) [0..<32])),
        LogInfo NoArg (''Wallet address is: '' @ ''mn_addr_test1''
                         @ toHex (map (randomSource freshProcess) [0..<32])),
        LogInfo NoArg (''Wallet balance is: '' @ showNat b)]
   \<and> logged (snd (buildWalletFromSeed netSdk (fst (TestnetRemoteConfig freshProcess))
                     (toHex (map (randomSource freshProcess) [0..<32]))
                     (snd (buildFreshWallet netSdk (fst (TestnetRemoteConfig freshProcess))
                             (snd (TestnetRemoteConfig freshProcess)))))) =
       logged (snd (buildFreshWallet netSdk (fst (TestnetRemoteConfig freshProcess))
                  (snd (TestnetRemoteConfig freshProcess)))) @
       [LogInfo NoArg (''Wallet seed is: '' @ toHex (map (randomSource freshProcess) [0..<32])),
        LogInfo NoArg (''Wallet address is: '' @ ''mn_addr_test1''
                         @ toHex (map (randomSource freshProcess) [0..<32])),
        LogInfo NoArg (''Wallet balance is: '' @ showNat b')]"
proof -
  let ?S = "toHex (map (randomSource freshProcess) [0..<32])"
  let ?cfg = "fst (TestnetRemoteConfig freshProcess)"
  let ?p = "snd (TestnetRemoteConfig freshProcess)"
  have pf: "randomSource ?p = randomSource freshProcess" "networkId ?p = TestNet" "logged ?p = []"
    by (simp_all add: TestnetRemoteConfig_def setNetworkId_def freshProcess_io)
  have derive: "\<forall>args w k t s. buildFromSeed netSdk args = Resolved w \<longrightarrow>
                  (t, s) \<in> set (emissions (stateObs w k)) \<longrightarrow>
                  address s = networkPrefix (networkIdArg args) @ seedArg args"
    by (auto simp add: netSdk_simps snapshot_def)
  obtain w p' where fresh: "buildFreshWallet netSdk ?cfg ?p = (Resolved (w, ?S), p')"
    and same: "networkId p' = networkId ?p"
    using netSdk_fresh [of ?cfg ?p] by (simp add: pf)
  obtain w' q' where rebuilt: "buildWalletFromSeed netSdk ?cfg ?S p' = (Resolved w', q')"
    using netSdk_rebuilt [of ?cfg ?S p'] by blast
  show ?thesis
    using rebuilt_wallet_reports_same_address
      [where sdk = netSdk and derive = "\<lambda>args. networkPrefix (networkIdArg args) @ seedArg args",
        OF derive fresh rebuilt same]
    by (simp add: fresh rebuilt pf)
qed

text \<open>
  C8 as stated fails with that SDK when the identifier has changed between the builds:
  the fresh build is made after \<open>TestnetRemoteConfig\<close> was constructed, the rebuild,
  with the same configuration and the seed of the fresh build, after a \<open>LocalTestConfig\<close>
  was constructed as well, and the addresses reported differ.
\<close>

theorem rebuilt_wallet_other_network_counterexample:
  "logged (snd (buildFreshWallet netSdk (fst (TestnetRemoteConfig freshProcess))
                  (snd (TestnetRemoteConfig freshProcess)))) =
       [LogInfo NoArg (''Wallet seed is: '' @ toHex (map (randomSource freshProcess) [0..<32])),
        LogInfo NoArg (''Wallet address is: mn_addr_test1''
                         @ toHex (map (randomSource freshProcess) [0..<32])),
        LogInfo NoArg ''Wallet balance is: 0'']
   \<and> logged (snd (buildWalletFromSeed netSdk (fst (TestnetRemoteConfig freshProcess))
                     (toHex (map (randomSource freshProcess) [0..<32]))
                     (snd (LocalTestConfig (snd (TestnetRemoteConfig freshProcess)))))) =
       [LogInfo NoArg (''Wallet seed is: '' @ toHex (map (randomSource freshProcess) [0..<32])),
        LogInfo NoArg (''Wallet address is: mn_addr_undeployed1''
                         @ toHex (map (randomSource freshProcess) [0..<32])),
        LogInfo NoArg ''Wallet balance is: 0'']
   \<and> ''mn_addr_test1'' @ toHex (map (randomSource freshProcess) [0..<32])
       \<noteq> ''mn_addr_undeployed1'' @ toHex (map (randomSource freshProcess) [0..<32])"
  by (simp add: netSdk_fresh netSdk_rebuilt)
     (simp add: TestnetRemoteConfig_def LocalTestConfig_def StandaloneConfig_def setNetworkId_def
        freshProcess_io)

section \<open>Properties of the fund-wait protocol\<close>

lemma funded_iff: "funded tok s \<longleftrightarrow> isSynced s \<and> 0 < nativeBalance tok s"
  by (simp add: funded_def isSynced_def nativeBalance_def split: option.splits)

lemma funded_balance: "funded tok s \<Longrightarrow> balances s tok = Some (nativeBalance tok s)"
  by (simp add: funded_def nativeBalance_def split: option.splits)

lemma fundsLoop_outcome:
  "fst (fundsLoop tok es c p) =
     (case find (\<lambda>(t, s). funded tok s) es of
        Some (t, s) \<Rightarrow> Resolved (nativeBalance tok s)
      | None \<Rightarrow> firstValueFrom \<lparr>emissions = [], closing = c\<rparr>)"
  by (induction tok es c p rule: fundsLoop.induct) (simp_all add: funded_iff Let_def)

lemma firstValueFrom_first:
  "firstValueFrom \<lparr>emissions = (t, x) # rest, closing = c\<rparr> = Resolved x"
  by (simp add: firstValueFrom_def)

lemma fundsLoop_pipe:
  "fst (fundsLoop tok es c p) =
     firstValueFrom
       \<lparr>emissions = filter (\<lambda>(t, b). 0 < b)
                      (map (\<lambda>(t, s). (t, nativeBalance tok s)) (filter (\<lambda>(t, s). isSynced s) es)),
        closing = c\<rparr>"
  by (induction tok es c p rule: fundsLoop.induct) (simp_all add: Let_def firstValueFrom_first)

lemma fundsLoop_process:
  "snd (fundsLoop tok es c p) =
     p\<lparr>logged := logged p @ map (\<lambda>(t, s). LogInfo NoArg (tapMessage s)) (evaluated tok es)\<rparr>"
  by (induction tok es c p rule: fundsLoop.induct) (simp_all add: funded_iff Let_def logger_info_def)

lemma evaluated_prefix: "\<exists>later. es = evaluated tok es @ later"
  by (induction tok es rule: evaluated.induct) auto

lemma find_funded_last:
  "find (\<lambda>(t, s). funded tok s) es = Some e \<Longrightarrow> evaluated tok es \<noteq> [] \<and> last (evaluated tok es) = e"
  by (induction tok es rule: evaluated.induct) (auto split: if_splits)

lemma throttleTime_subseq: "subseq (throttleTime d timer es) es"
  by (induction d timer es rule: throttleTime.induct) auto

lemma throttleTime_hd:
  "throttleTime d (Some u) es = e # rest \<Longrightarrow> u \<le> fst e"
  by (induction d "Some u" es rule: throttleTime.induct) (auto split: if_splits)

lemma throttleTime_spaced:
  "successively (\<lambda>a b. fst a + d \<le> fst b) (throttleTime d timer es)"
proof (induction d timer es rule: throttleTime.induct)
  case (1 d timer)
  show ?case by simp
next
  case (2 d timer t x rest)
  show ?case
  proof (cases "case timer of None \<Rightarrow> False | Some u \<Rightarrow> t < u")
    case True
    with 2 show ?thesis by simp
  next
    case False
    have "successively (\<lambda>a b. fst a + d \<le> fst b) ((t, x) # throttleTime d (Some (t + d)) rest)"
    proof (cases "throttleTime d (Some (t + d)) rest")
      case Nil
      then show ?thesis by simp
    next
      case (Cons e more)
      from throttleTime_hd [OF Cons] 2(2) [OF False] Cons show ?thesis by simp
    qed
    with False show ?thesis by simp
  qed
qed

lemma successively_prefix: "successively P (xs @ ys) \<Longrightarrow> successively P xs"
  by (simp add: successively_append_iff)

lemma waitForFunds_eq:
  "waitForFunds sdk w p =
     fundsLoop (nativeToken sdk)
       (throttleTime 10000 None (emissions (stateObs w (count_list (sdkCalls p) (State (handle w))))))
       (closing (stateObs w (count_list (sdkCalls p) (State (handle w)))))
       (p\<lparr>sdkCalls := sdkCalls p @ [State (handle w)]\<rparr>)"
  by (simp add: waitForFunds_def wallet_state_def)

lemma find_funded_Some:
  "find (\<lambda>(t, s). funded tok s) es = Some (t, s) \<Longrightarrow> (t, s) \<in> set es \<and> funded tok s"
  by (auto simp add: find_Some_iff in_set_conv_nth)

lemma subseq_set: "subseq xs ys \<Longrightarrow> set xs \<subseteq> set ys"
  by (auto elim: list_emb_set)

text \<open>
  C1, as amended. \<open>waitForFunds\<close> looks only at the snapshots that pass the 10-second
  throttle. Its result is the native balance of the first of these that is synced with a
  positive balance (an absent entry counting as zero); when none of them is, the promise
  is rejected (the stream completed or failed) or stays pending (the stream stays open).
  This is the result of \<open>firstValueFrom\<close> on the pipe as it is written: throttle, filter
  on synced, map to the balance, filter on positive. The snapshot that resolves the
  promise is the last one the subscriber evaluates and logs, so the subscription looks at
  nothing after it; and a resolution is always triggered by a snapshot of the stream that
  is synced and holds the positive balance returned.
\<close>

theorem waitForFunds_first_funded_after_throttle:
  "let obs = stateObs w (count_list (sdkCalls p) (State (handle w)));
       tok = nativeToken sdk;
       passed = throttleTime 10000 None (emissions obs)
   in fst (waitForFunds sdk w p) =
        (case find (\<lambda>(t, s). funded tok s) passed of
           Some (t, s) \<Rightarrow> Resolved (case balances s tok of None \<Rightarrow> 0 | Some b \<Rightarrow> b)
         | None \<Rightarrow> (case closing obs of
                      Completes \<Rightarrow> Rejected EmptyError
                    | Fails e \<Rightarrow> Rejected e
                    | StaysOpen \<Rightarrow> Pending))
      \<and> fst (waitForFunds sdk w p) =
          firstValueFrom
            \<lparr>emissions = filter (\<lambda>(t, b). 0 < b)
                           (map (\<lambda>(t, s). (t, case balances s tok of None \<Rightarrow> 0 | Some b \<Rightarrow> b))
                              (filter (\<lambda>(t, s). case syncProgress s of None \<Rightarrow> False
                                                   | Some sp \<Rightarrow> synced sp = True) passed)),
             closing = closing obs\<rparr>
      \<and> snd (waitForFunds sdk w p) =
          p\<lparr>sdkCalls := sdkCalls p @ [State (handle w)],
            logged := logged p @ map (\<lambda>(t, s). LogInfo NoArg (tapMessage s)) (evaluated tok passed)\<rparr>
      \<and> (\<forall>b. fst (waitForFunds sdk w p) = Resolved b \<longrightarrow>
            0 < b
            \<and> (\<exists>t s. (t, s) \<in> set (emissions obs) \<and> funded tok s \<and> balances s tok = Some b
                  \<and> evaluated tok passed \<noteq> [] \<and> last (evaluated tok passed) = (t, s)))"
proof -
  let ?obs = "stateObs w (count_list (sdkCalls p) (State (handle w)))"
  let ?tok = "nativeToken sdk"
  let ?passed = "throttleTime 10000 None (emissions ?obs)"
  have 1: "fst (waitForFunds sdk w p) =
        (case find (\<lambda>(t, s). funded ?tok s) ?passed of
           Some (t, s) \<Rightarrow> Resolved (case balances s ?tok of None \<Rightarrow> 0 | Some b \<Rightarrow> b)
         | None \<Rightarrow> (case closing ?obs of
                      Completes \<Rightarrow> Rejected EmptyError
                    | Fails e \<Rightarrow> Rejected e
                    | StaysOpen \<Rightarrow> Pending))"
    by (simp add: waitForFunds_eq fundsLoop_outcome firstValueFrom_def nativeBalance_def
        split: option.splits)
  have 2: "fst (waitForFunds sdk w p) =
          firstValueFrom
            \<lparr>emissions = filter (\<lambda>(t, b). 0 < b)
                           (map (\<lambda>(t, s). (t, case balances s ?tok of None \<Rightarrow> 0 | Some b \<Rightarrow> b))
                              (filter (\<lambda>(t, s). case syncProgress s of None \<Rightarrow> False
                                                   | Some sp \<Rightarrow> synced sp = True) ?passed)),
             closing = closing ?obs\<rparr>"
    using fundsLoop_pipe [of ?tok ?passed "closing ?obs" "p\<lparr>sdkCalls := sdkCalls p @ [State (handle w)]\<rparr>"]
    by (simp add: waitForFunds_eq nativeBalance_def [abs_def] isSynced_def [abs_def])
  have 3: "snd (waitForFunds sdk w p) =
          p\<lparr>sdkCalls := sdkCalls p @ [State (handle w)],
            logged := logged p @ map (\<lambda>(t, s). LogInfo NoArg (tapMessage s)) (evaluated ?tok ?passed)\<rparr>"
    by (simp add: waitForFunds_eq fundsLoop_process)
  have 4: "0 < b
            \<and> (\<exists>t s. (t, s) \<in> set (emissions ?obs) \<and> funded ?tok s \<and> balances s ?tok = Some b
                  \<and> evaluated ?tok ?passed \<noteq> [] \<and> last (evaluated ?tok ?passed) = (t, s))"
    if r: "fst (waitForFunds sdk w p) = Resolved b" for b
  proof -
    from r obtain t s where f: "find (\<lambda>(t, s). funded ?tok s) ?passed = Some (t, s)"
      and b: "b = nativeBalance ?tok s"
      by (auto simp add: waitForFunds_eq fundsLoop_outcome firstValueFrom_def
          split: option.splits Closing.splits)
    from find_funded_Some [OF f] have m: "(t, s) \<in> set ?passed" and fu: "funded ?tok s"
      by simp_all
    from m subseq_set [OF throttleTime_subseq] have m': "(t, s) \<in> set (emissions ?obs)"
      by blast
    from fu have "0 < b" "balances s ?tok = Some b"
      by (simp_all add: b funded_iff funded_balance)
    with m' fu find_funded_last [OF f] show ?thesis by blast
  qed
  from 1 2 3 4 show ?thesis
    unfolding Let_def by blast
qed

lemma lateStream_passed:
  "throttleTime 10000 None (emissions (lateStream a)) =
     [(0, (snapshot a None False)\<lparr>syncProgress := None\<rparr>), (20000, snapshot a (Some 200) True)]"
  by (simp add: lateStream_def)

lemma snapshot_funded:
  "funded ''native'' (snapshot a b sy) \<longleftrightarrow> sy \<and> (case b of None \<Rightarrow> False | Some n \<Rightarrow> 0 < n)"
  "\<not> funded ''native'' ((snapshot a b sy)\<lparr>syncProgress := None\<rparr>)"
  by (simp_all add: funded_def snapshot_def)

text \<open>
  On the stream of \<open>lateWallet\<close> the snapshot at five seconds is dropped by the throttle,
  and the promise resolves with the balance of the snapshot at twenty seconds.
\<close>

theorem waitForFunds_first_funded_after_throttle_witness:
  "fst (waitForFunds demoSdk lateWallet freshProcess) = Resolved 200
   \<and> sdkCalls (snd (waitForFunds demoSdk lateWallet freshProcess)) = [State 2]
   \<and> (\<exists>t s. (t, s) \<in> set (emissions (lateStream ''mn_addr'')) \<and> funded ''native'' s
          \<and> balances s ''native'' = Some 200)"
proof -
  note T = waitForFunds_first_funded_after_throttle
    [where sdk = demoSdk and w = lateWallet and p = freshProcess, unfolded Let_def]
  have o: "stateObs lateWallet k = lateStream ''mn_addr''" for k
    by (simp add: lateWallet_def)
  have r: "fst (waitForFunds demoSdk lateWallet freshProcess) = Resolved 200"
    using T [THEN conjunct1]
    by (simp add: o lateStream_passed demoSdk_simps snapshot_funded) (simp add: snapshot_def)
  have c: "sdkCalls (snd (waitForFunds demoSdk lateWallet freshProcess)) = [State 2]"
    using T [THEN conjunct2, THEN conjunct2, THEN conjunct1]
    by (simp add: lateWallet_def freshProcess_def)
  from T [THEN conjunct2, THEN conjunct2, THEN conjunct2] r
  have "\<exists>t s. (t, s) \<in> set (emissions (lateStream ''mn_addr'')) \<and> funded ''native'' s
          \<and> balances s ''native'' = Some 200"
    by (simp add: o demoSdk_simps) blast
  with r c show ?thesis by simp
qed

text \<open>
  C1 as stated fails on that stream: its first snapshot that is synced with a positive
  balance holds 100, and the promise resolves with 200.
\<close>

theorem waitForFunds_throttled_snapshot_counterexample:
  "map_option (\<lambda>(t, s). (t, balances s ''native''))
       (find (\<lambda>(t, s). funded ''native'' s) (emissions (stateObs lateWallet 0))) = Some (5000, Some 100)
   \<and> fst (waitForFunds demoSdk lateWallet freshProcess) = Resolved 200"
  by (simp add: waitForFunds_def wallet_state_def lateWallet_def lateStream_def demoSdk_def
        snapshot_def funded_def isSynced_def nativeBalance_def logger_info_def Let_def)

text \<open>
  C7. In \<open>waitForFunds\<close> the snapshots that pass the throttle follow one another at a
  distance of at least 10000 milliseconds: a snapshot that arrives less than ten seconds
  after the last one passed on is dropped. The snapshots evaluated are a first part of
  those, so of the snapshots of the stream in their order, and the log holds one line
  for each evaluated snapshot, in order, with the source gap, the apply gap (each 0 when
  the sync progress is missing) and the number of transactions.
\<close>

theorem waitForFunds_throttles_and_logs:
  "let obs = stateObs w (count_list (sdkCalls p) (State (handle w)));
       passed = throttleTime 10000 None (emissions obs);
       ev = evaluated (nativeToken sdk) passed
   in successively (\<lambda>a b. fst a + 10000 \<le> fst b) passed
      \<and> subseq passed (emissions obs)
      \<and> (\<exists>later. passed = ev @ later)
      \<and> successively (\<lambda>a b. fst a + 10000 \<le> fst b) ev
      \<and> logged (snd (waitForFunds sdk w p)) =
          logged p @
            map (\<lambda>(t, s). LogInfo NoArg
                   (''Waiting for funds. Backend lag: ''
                      @ showNat (case syncProgress s of None \<Rightarrow> 0 | Some sp \<Rightarrow> sourceGap (lag sp))
                      @ '', wallet lag: ''
                      @ showNat (case syncProgress s of None \<Rightarrow> 0 | Some sp \<Rightarrow> applyGap (lag sp))
                      @ '', transactions='' @ showNat (length (transactionHistory s)))) ev"
proof -
  let ?obs = "stateObs w (count_list (sdkCalls p) (State (handle w)))"
  let ?passed = "throttleTime 10000 None (emissions ?obs)"
  let ?ev = "evaluated (nativeToken sdk) ?passed"
  have 1: "successively (\<lambda>a b. fst a + 10000 \<le> fst b) ?passed"
    by (rule throttleTime_spaced)
  have 2: "subseq ?passed (emissions ?obs)"
    by (rule throttleTime_subseq)
  from evaluated_prefix [of ?passed "nativeToken sdk"] obtain later where 3: "?passed = ?ev @ later" ..
  from 1 have 4: "successively (\<lambda>a b. fst a + 10000 \<le> fst b) ?ev"
    by (subst (asm) 3) (rule successively_prefix)
  have 5: "logged (snd (waitForFunds sdk w p)) =
          logged p @
            map (\<lambda>(t, s). LogInfo NoArg
                   (''Waiting for funds. Backend lag: ''
                      @ showNat (case syncProgress s of None \<Rightarrow> 0 | Some sp \<Rightarrow> sourceGap (lag sp))
                      @ '', wallet lag: ''
                      @ showNat (case syncProgress s of None \<Rightarrow> 0 | Some sp \<Rightarrow> applyGap (lag sp))
                      @ '', transactions='' @ showNat (length (transactionHistory s)))) ?ev"
    by (simp add: waitForFunds_eq fundsLoop_process tapMessage_def [abs_def] Let_def)
  from 1 2 3 4 5 show ?thesis
    unfolding Let_def by blast
qed

text \<open>
  On the stream of \<open>lateWallet\<close> two snapshots are evaluated, at 0 and at 20000
  milliseconds; the first has no sync progress and is logged with both gaps 0.
\<close>

theorem waitForFunds_throttles_and_logs_witness:
  "logged (snd (waitForFunds demoSdk lateWallet freshProcess)) =
     [LogInfo NoArg ''Waiting for funds. Backend lag: 0, wallet lag: 0, transactions=0'',
      LogInfo NoArg ''Waiting for funds. Backend lag: 3, wallet lag: 2, transactions=0'']
   \<and> map fst (evaluated ''native'' (throttleTime 10000 None (emissions (lateStream ''mn_addr''))))
       = [0, 20000]"
proof -
  note T = waitForFunds_throttles_and_logs
    [where sdk = demoSdk and w = lateWallet and p = freshProcess, unfolded Let_def]
  have o: "stateObs lateWallet k = lateStream ''mn_addr''" for k
    by (simp add: lateWallet_def)
  have sh: "showNat 0 = ''0''" "showNat 2 = ''2''" "showNat 3 = ''3''"
    by (simp_all add: showNat.simps digitChar_def)
  have e: "evaluated ''native'' (throttleTime 10000 None (emissions (lateStream ''mn_addr''))) =
      [(0, (snapshot ''mn_addr'' None False)\<lparr>syncProgress := None\<rparr>),
       (20000, snapshot ''mn_addr'' (Some 200) True)]"
    by (simp add: lateStream_passed snapshot_funded)
  have l: "logged freshProcess = []"
    by (simp add: freshProcess_def)
  show ?thesis
    using T [THEN conjunct2, THEN conjunct2, THEN conjunct2, THEN conjunct2]
    by (simp add: o demoSdk_simps e l) (simp add: snapshot_def sh)
qed

section \<open>Properties of the fund-waiting builder\<close>

lemma waitForFunds_calls:
  "sdkCalls (snd (waitForFunds sdk w p)) = sdkCalls p @ [State (handle w)]"
  by (simp add: waitForFunds_eq fundsLoop_process)

lemma waitForFunds_ResolvedD:
  assumes "waitForFunds sdk w p = (Resolved b, q)"
  shows "0 < b \<and> (\<exists>k t s. (t, s) \<in> set (emissions (stateObs w k)) \<and> funded (nativeToken sdk) s
            \<and> balances s (nativeToken sdk) = Some b)"
proof -
  let ?obs = "stateObs w (count_list (sdkCalls p) (State (handle w)))"
  let ?tok = "nativeToken sdk"
  let ?passed = "throttleTime 10000 None (emissions ?obs)"
  from assms have "fst (waitForFunds sdk w p) = Resolved b" by simp
  then obtain t s where f: "find (\<lambda>(t, s). funded ?tok s) ?passed = Some (t, s)"
    and b: "b = nativeBalance ?tok s"
    by (auto simp add: waitForFunds_eq fundsLoop_outcome firstValueFrom_def
        split: option.splits Closing.splits)
  from find_funded_Some [OF f] have m: "(t, s) \<in> set ?passed" and fu: "funded ?tok s"
    by simp_all
  from m subseq_set [OF throttleTime_subseq] have "(t, s) \<in> set (emissions ?obs)"
    by blast
  moreover from fu have "0 < b" "balances s ?tok = Some b"
    by (simp_all add: b funded_iff funded_balance)
  ultimately show ?thesis using fu by blast
qed

lemma buildWalletAndWaitForFunds_eq:
  "buildWalletAndWaitForFunds sdk cfg sd p =
     (let args = \<lparr>indexerUri = indexer cfg, indexerWsUri = indexerWS cfg,
                   proverServerUri = proofServer cfg, substrateNodeUri = node cfg,
                   seedArg = sd, networkIdArg = networkId p, minLogLevel = ''warn''\<rparr>
      in case buildFromSeed sdk args of
           Resolved w \<Rightarrow>
             (let p2 = p\<lparr>sdkCalls := sdkCalls p @ [BuildFromSeed args, Start (handle w), State (handle w)]\<rparr>
              in case firstValueFrom (stateObs w (count_list (sdkCalls p) (State (handle w)))) of
                   Resolved s \<Rightarrow>
                     (if balances s (nativeToken sdk) = None \<or> balances s (nativeToken sdk) = Some 0
                      then await
                             (waitForFunds sdk w
                                (p2\<lparr>logged := logged p @
                                   [LogInfo NoArg (''Wallet seed is: '' @ sd),
                                    LogInfo NoArg (''Wallet address is: '' @ address s),
                                    LogInfo NoArg ''Wallet balance is: 0'',
                                    LogInfo NoArg ''Waiting to receive tokens...'']\<rparr>))
                             (\<lambda>balance q.
                                (Resolved w,
                                 q\<lparr>logged := logged q @
                                    [LogInfo NoArg (''Wallet balance is: '' @ showNat balance)]\<rparr>))
                      else (Resolved w,
                            p2\<lparr>logged := logged p @
                               [LogInfo NoArg (''Wallet seed is: '' @ sd),
                                LogInfo NoArg (''Wallet address is: '' @ address s),
                                LogInfo NoArg (''Wallet balance is: '' @
                                   showNat (case balances s (nativeToken sdk) of
                                              None \<Rightarrow> 0 | Some b \<Rightarrow> b))]\<rparr>))
                 | Rejected e \<Rightarrow> (Rejected e, p2)
                 | Pending \<Rightarrow> (Pending, p2)
                 | Exited n \<Rightarrow> (Exited n, p2))
         | Rejected e \<Rightarrow> (Rejected e, p\<lparr>sdkCalls := sdkCalls p @ [BuildFromSeed args]\<rparr>)
         | Pending \<Rightarrow> (Pending, p\<lparr>sdkCalls := sdkCalls p @ [BuildFromSeed args]\<rparr>)
         | Exited n \<Rightarrow> (Exited n, p\<lparr>sdkCalls := sdkCalls p @ [BuildFromSeed args]\<rparr>))"
  by (simp add: buildWalletAndWaitForFunds_def sdk_defs io_defs Let_def
      split: Outcome.splits option.splits)

lemma await_Resolved:
  assumes "await r k = (Resolved y, q)"
  shows "\<exists>x q0. r = (Resolved x, q0) \<and> k x q0 = (Resolved y, q)"
proof (cases r)
  case (Pair a q0)
  with assms show ?thesis by (cases a) simp_all
qed

lemma buildWalletAndWaitForFunds_ResolvedD:
  assumes "buildWalletAndWaitForFunds sdk cfg sd p = (Resolved w, p')"
  shows "\<exists>b k t s. 0 < b \<and> (t, s) \<in> set (emissions (stateObs w k))
           \<and> balances s (nativeToken sdk) = Some b
           \<and> logged p' \<noteq> []
           \<and> last (logged p') = LogInfo NoArg (''Wallet balance is: '' @ showNat b)"
proof -
  let ?args = "\<lparr>indexerUri = indexer cfg, indexerWsUri = indexerWS cfg,
                   proverServerUri = proofServer cfg, substrateNodeUri = node cfg,
                   seedArg = sd, networkIdArg = networkId p, minLogLevel = ''warn''\<rparr>"
  let ?k = "count_list (sdkCalls p) (State (handle w))"
  from assms obtain s where b: "buildFromSeed sdk ?args = Resolved w"
    and f: "firstValueFrom (stateObs w ?k) = Resolved s"
    by (auto simp add: buildWalletAndWaitForFunds_eq Let_def
        split: Outcome.splits if_splits dest!: await_Resolved)
  from firstValueFrom_Resolved [OF f] obtain t where m: "(t, s) \<in> set (emissions (stateObs w ?k))"
    by (metis list.set_intros(1))
  show ?thesis
  proof (cases "balances s (nativeToken sdk) = None \<or> balances s (nativeToken sdk) = Some 0")
    case False
    then obtain b0 where b0: "balances s (nativeToken sdk) = Some b0" "0 < b0"
      by auto
    with assms b f False have "logged p' \<noteq> [] \<and>
        last (logged p') = LogInfo NoArg (''Wallet balance is: '' @ showNat b0)"
      by (auto simp add: buildWalletAndWaitForFunds_eq Let_def)
    with b0 m show ?thesis by blast
  next
    case True
    with assms b f obtain bal q0 p0 where w: "waitForFunds sdk w p0 = (Resolved bal, q0)"
      and l: "p' = q0\<lparr>logged := logged q0 @ [LogInfo NoArg (''Wallet balance is: '' @ showNat bal)]\<rparr>"
      by (auto simp add: buildWalletAndWaitForFunds_eq Let_def dest!: await_Resolved)
    from waitForFunds_ResolvedD [OF w] l show ?thesis by auto
  qed
qed

lemma await_sdkCalls:
  assumes "\<And>x q. sdkCalls (snd (k x q)) = sdkCalls q"
  shows "sdkCalls (snd (await r k)) = sdkCalls (snd r)"
proof (cases r)
  case (Pair a q0)
  with assms show ?thesis by (cases a) simp_all
qed

lemma buildWalletAndWaitForFunds_constructions:
  "constructions (sdkCalls (snd (buildWalletAndWaitForFunds sdk cfg sd p))) =
     constructions (sdkCalls p) @
       [\<lparr>indexerUri = indexer cfg, indexerWsUri = indexerWS cfg,
         proverServerUri = proofServer cfg, substrateNodeUri = node cfg,
         seedArg = sd, networkIdArg = networkId p, minLogLevel = ''warn''\<rparr>]"
  by (simp add: buildWalletAndWaitForFunds_eq Let_def await_sdkCalls waitForFunds_calls
      constructions_append split: Outcome.splits)

text \<open>
  C4. Suppose the SDK builds the wallet from the four endpoints and the seed, and the
  wallet's state stream delivers a first snapshot. Then \<open>buildWalletAndWaitForFunds\<close>
  starts the wallet, reads that snapshot and logs seed and address. If the snapshot's
  native balance is absent or zero it logs a zero balance, awaits \<open>waitForFunds\<close> (so it
  ends as that promise ends when it does not resolve) and logs the balance the promise
  resolves with; otherwise it logs the snapshot's balance and returns without a second
  subscription to the state stream. Whenever it returns, it returns the handle the SDK
  built, and the balance in its last log line is positive and is the native balance of a
  snapshot of that wallet.
\<close>

theorem buildWalletAndWaitForFunds_waits_iff_unfunded:
  assumes build: "buildFromSeed sdk
            \<lparr>indexerUri = indexer cfg, indexerWsUri = indexerWS cfg,
             proverServerUri = proofServer cfg, substrateNodeUri = node cfg,
             seedArg = sd, networkIdArg = networkId p, minLogLevel = ''warn''\<rparr> = Resolved w"
    and first: "emissions (stateObs w (count_list (sdkCalls p) (State (handle w)))) = (t, s) # later"
  shows "buildWalletAndWaitForFunds sdk cfg sd p =
          (if balances s (nativeToken sdk) = None \<or> balances s (nativeToken sdk) = Some 0
           then await
                  (waitForFunds sdk w
                     (p\<lparr>sdkCalls := sdkCalls p @
                           [BuildFromSeed \<lparr>indexerUri = indexer cfg, indexerWsUri = indexerWS cfg,
                              proverServerUri = proofServer cfg, substrateNodeUri = node cfg,
                              seedArg = sd, networkIdArg = networkId p, minLogLevel = ''warn''\<rparr>,
                            Start (handle w), State (handle w)],
                        logged := logged p @
                           [LogInfo NoArg (''Wallet seed is: '' @ sd),
                            LogInfo NoArg (''Wallet address is: '' @ address s),
                            LogInfo NoArg ''Wallet balance is: 0'',
                            LogInfo NoArg ''Waiting to receive tokens...'']\<rparr>))
                  (\<lambda>balance q.
                     (Resolved w,
                      q\<lparr>logged := logged q @
                           [LogInfo NoArg (''Wallet balance is: '' @ showNat balance)]\<rparr>))
           else (Resolved w,
                 p\<lparr>sdkCalls := sdkCalls p @
                       [BuildFromSeed \<lparr>indexerUri = indexer cfg, indexerWsUri = indexerWS cfg,
                          proverServerUri = proofServer cfg, substrateNodeUri = node cfg,
                          seedArg = sd, networkIdArg = networkId p, minLogLevel = ''warn''\<rparr>,
                        Start (handle w), State (handle w)],
                    logged := logged p @
                       [LogInfo NoArg (''Wallet seed is: '' @ sd),
                        LogInfo NoArg (''Wallet address is: '' @ address s),
                        LogInfo NoArg (''Wallet balance is: '' @
                           showNat (case balances s (nativeToken sdk) of
                                      None \<Rightarrow> 0 | Some b \<Rightarrow> b))]\<rparr>))
     \<and> sdkCalls (snd (buildWalletAndWaitForFunds sdk cfg sd p)) =
         sdkCalls p @
           [BuildFromSeed \<lparr>indexerUri = indexer cfg, indexerWsUri = indexerWS cfg,
              proverServerUri = proofServer cfg, substrateNodeUri = node cfg,
              seedArg = sd, networkIdArg = networkId p, minLogLevel = ''warn''\<rparr>,
            Start (handle w), State (handle w)] @
           (if balances s (nativeToken sdk) = None \<or> balances s (nativeToken sdk) = Some 0
            then [State (handle w)] else [])
     \<and> (\<forall>w' p'. buildWalletAndWaitForFunds sdk cfg sd p = (Resolved w', p') \<longrightarrow>
           w' = w
           \<and> (\<exists>b k t' s'. 0 < b \<and> (t', s') \<in> set (emissions (stateObs w k))
                 \<and> balances s' (nativeToken sdk) = Some b
                 \<and> last (logged p') = LogInfo NoArg (''Wallet balance is: '' @ showNat b)))"
proof -
  let ?args = "\<lparr>indexerUri = indexer cfg, indexerWsUri = indexerWS cfg,
             proverServerUri = proofServer cfg, substrateNodeUri = node cfg,
             seedArg = sd, networkIdArg = networkId p, minLogLevel = ''warn''\<rparr>"
  let ?unfunded = "balances s (nativeToken sdk) = None \<or> balances s (nativeToken sdk) = Some 0"
  let ?p2 = "p\<lparr>sdkCalls := sdkCalls p @ [BuildFromSeed ?args, Start (handle w), State (handle w)]\<rparr>"
  let ?finish = "\<lambda>balance q. (Resolved w,
       q\<lparr>logged := logged q @ [LogInfo NoArg (''Wallet balance is: '' @ showNat balance)]\<rparr>)"
  have fv: "firstValueFrom (stateObs w (count_list (sdkCalls p) (State (handle w)))) = Resolved s"
    using first by (rule firstValueFrom_Cons)
  have 1: "buildWalletAndWaitForFunds sdk cfg sd p =
          (if ?unfunded
           then await
                  (waitForFunds sdk w
                     (?p2\<lparr>logged := logged p @
                           [LogInfo NoArg (''Wallet seed is: '' @ sd),
                            LogInfo NoArg (''Wallet address is: '' @ address s),
                            LogInfo NoArg ''Wallet balance is: 0'',
                            LogInfo NoArg ''Waiting to receive tokens...'']\<rparr>))
                  ?finish
           else (Resolved w,
                 ?p2\<lparr>logged := logged p @
                       [LogInfo NoArg (''Wallet seed is: '' @ sd),
                        LogInfo NoArg (''Wallet address is: '' @ address s),
                        LogInfo NoArg (''Wallet balance is: '' @
                           showNat (case balances s (nativeToken sdk) of
                                      None \<Rightarrow> 0 | Some b \<Rightarrow> b))]\<rparr>))"
    by (simp add: buildWalletAndWaitForFunds_eq Let_def build fv)
  have 2: "sdkCalls (snd (buildWalletAndWaitForFunds sdk cfg sd p)) =
         sdkCalls p @ [BuildFromSeed ?args, Start (handle w), State (handle w)] @
           (if ?unfunded then [State (handle w)] else [])"
    by (simp add: 1 await_sdkCalls waitForFunds_calls)
  have 3: "w' = w
           \<and> (\<exists>b k t' s'. 0 < b \<and> (t', s') \<in> set (emissions (stateObs w k))
                 \<and> balances s' (nativeToken sdk) = Some b
                 \<and> last (logged p') = LogInfo NoArg (''Wallet balance is: '' @ showNat b))"
    if r: "buildWalletAndWaitForFunds sdk cfg sd p = (Resolved w', p')" for w' p'
  proof -
    from r have "w' = w"
      by (auto simp add: 1 split: if_splits dest!: await_Resolved)
    with buildWalletAndWaitForFunds_ResolvedD [OF r] show ?thesis by blast
  qed
  from 3 have c3: "\<forall>w' p'. buildWalletAndWaitForFunds sdk cfg sd p = (Resolved w', p') \<longrightarrow>
           w' = w
           \<and> (\<exists>b k t' s'. 0 < b \<and> (t', s') \<in> set (emissions (stateObs w k))
                 \<and> balances s' (nativeToken sdk) = Some b
                 \<and> last (logged p') = LogInfo NoArg (''Wallet balance is: '' @ showNat b))"
    by (intro allI impI)
  from 1 2 c3 show ?thesis by (intro conjI)
qed

lemma demo_waitForFunds:
  "count_list (sdkCalls q) (State 1) = Suc k \<Longrightarrow>
   waitForFunds demoSdk (demoWallet sd) q =
     (Resolved 200,
      q\<lparr>sdkCalls := sdkCalls q @ [State 1],
        logged := logged q @
          [LogInfo NoArg ''Waiting for funds. Backend lag: 0, wallet lag: 0, transactions=0'',
           LogInfo NoArg ''Waiting for funds. Backend lag: 3, wallet lag: 2, transactions=0'']\<rparr>)"
  by (simp add: waitForFunds_eq demoWallet_simps demoSdk_simps lateStream_passed)
     (simp add: lateStream_def snapshot_def isSynced_def nativeBalance_def tapMessage_def
        logger_info_def showNat.simps digitChar_def Let_def)

text \<open>
  With the concrete SDK the first snapshot holds no native balance, so the builder waits;
  the stream of the second subscription resolves the wait with 200.
\<close>

theorem buildWalletAndWaitForFunds_waits_iff_unfunded_witness:
  "fst (buildWalletAndWaitForFunds demoSdk (fst (StandaloneConfig freshProcess)) ''5eed'' freshProcess)
     = Resolved (demoWallet ''5eed'')
   \<and> sdkCalls (snd (buildWalletAndWaitForFunds demoSdk (fst (StandaloneConfig freshProcess)) ''5eed''
                       freshProcess)) =
       [BuildFromSeed \<lparr>indexerUri = ''http://127.0.0.1:8088/api/v1/graphql'',
          indexerWsUri = ''ws://127.0.0.1:8088/api/v1/graphql/ws'',
          proverServerUri = ''http://127.0.0.1:6300'',
          substrateNodeUri = ''http://127.0.0.1:9944'',
          seedArg = ''5eed'', networkIdArg = Undeployed, minLogLevel = ''warn''\<rparr>,
        Start 1, State 1, State 1]
   \<and> logged (snd (buildWalletAndWaitForFunds demoSdk (fst (StandaloneConfig freshProcess)) ''5eed''
                     freshProcess)) =
       [LogInfo NoArg ''Wallet seed is: 5eed'',
        LogInfo NoArg ''Wallet address is: addr-5eed'',
        LogInfo NoArg ''Wallet balance is: 0'',
        LogInfo NoArg ''Waiting to receive tokens...'',
        LogInfo NoArg ''Waiting for funds. Backend lag: 0, wallet lag: 0, transactions=0'',
        LogInfo NoArg ''Waiting for funds. Backend lag: 3, wallet lag: 2, transactions=0'',
        LogInfo NoArg ''Wallet balance is: 200'']
   \<and> (\<exists>b k t s. 0 < b \<and> (t, s) \<in> set (emissions (stateObs (demoWallet ''5eed'') k))
         \<and> balances s ''native'' = Some b
         \<and> last (logged (snd (buildWalletAndWaitForFunds demoSdk (fst (StandaloneConfig freshProcess))
                ''5eed'' freshProcess))) = LogInfo NoArg (''Wallet balance is: '' @ showNat b))"
proof -
  let ?cfg = "fst (StandaloneConfig freshProcess)"
  have build: "buildFromSeed demoSdk
            \<lparr>indexerUri = indexer ?cfg, indexerWsUri = indexerWS ?cfg,
             proverServerUri = proofServer ?cfg, substrateNodeUri = node ?cfg,
             seedArg = ''5eed'', networkIdArg = networkId freshProcess,
             minLogLevel = ''warn''\<rparr> = Resolved (demoWallet ''5eed'')"
    by (simp add: demoSdk_simps)
  have first: "emissions (stateObs (demoWallet ''5eed'')
                 (count_list (sdkCalls freshProcess) (State (handle (demoWallet ''5eed''))))) =
               (0, snapshot (''addr-'' @ ''5eed'') None False) # []"
    by (simp add: demoWallet_simps freshProcess_def)
  have sh: "showNat 200 = ''200''"
    by (simp add: showNat.simps digitChar_def)
  have e: "buildWalletAndWaitForFunds demoSdk ?cfg ''5eed'' freshProcess =
      (Resolved (demoWallet ''5eed''),
       \<lparr>LOG_LEVEL = None, randomSource = (\<lambda>i. of_nat (7 * i)), networkId = Undeployed,
        stdout = [], stderr = [], exitCode = None,
        logged = [LogInfo NoArg ''Wallet seed is: 5eed'',
          LogInfo NoArg ''Wallet address is: addr-5eed'',
          LogInfo NoArg ''Wallet balance is: 0'',
          LogInfo NoArg ''Waiting to receive tokens...'',
          LogInfo NoArg ''Waiting for funds. Backend lag: 0, wallet lag: 0, transactions=0'',
          LogInfo NoArg ''Waiting for funds. Backend lag: 3, wallet lag: 2, transactions=0'',
          LogInfo NoArg ''Wallet balance is: 200''],
        sdkCalls = [BuildFromSeed \<lparr>indexerUri = ''http://127.0.0.1:8088/api/v1/graphql'',
            indexerWsUri = ''ws://127.0.0.1:8088/api/v1/graphql/ws'',
            proverServerUri = ''http://127.0.0.1:6300'',
            substrateNodeUri = ''http://127.0.0.1:9944'',
            seedArg = ''5eed'', networkIdArg = Undeployed, minLogLevel = ''warn''\<rparr>,
          Start 1, State 1, State 1]\<rparr>)"
    using buildWalletAndWaitForFunds_waits_iff_unfunded [OF build first, THEN conjunct1]
    by (simp add: snapshot_def demoSdk_simps demoWallet_simps demo_waitForFunds [where k = 0] sh
          StandaloneConfig_def freshProcess_def)
  from buildWalletAndWaitForFunds_waits_iff_unfunded [OF build first, THEN conjunct2, THEN conjunct2] e
  have "\<exists>b k t s. 0 < b \<and> (t, s) \<in> set (emissions (stateObs (demoWallet ''5eed'') k))
         \<and> balances s ''native'' = Some b
         \<and> last (logged (snd (buildWalletAndWaitForFunds demoSdk ?cfg ''5eed'' freshProcess))) =
            LogInfo NoArg (''Wallet balance is: '' @ showNat b)"
    by (simp add: demoSdk_simps)
  then show ?thesis by (simp add: e)
qed

lemma demo_buildWalletAndWaitForFunds:
  assumes "count_list (sdkCalls p) (State 1) = 0"
  shows "\<exists>p'. buildWalletAndWaitForFunds demoSdk cfg sd p = (Resolved (demoWallet sd), p')"
proof -
  let ?args = "\<lparr>indexerUri = indexer cfg, indexerWsUri = indexerWS cfg,
                   proverServerUri = proofServer cfg, substrateNodeUri = node cfg,
                   seedArg = sd, networkIdArg = networkId p, minLogLevel = ''warn''\<rparr>"
  let ?q = "p\<lparr>sdkCalls := sdkCalls p @ [BuildFromSeed ?args, Start 1, State 1],
              logged := logged p @
                [LogInfo NoArg (''Wallet seed is: '' @ sd),
                 LogInfo NoArg (''Wallet address is: '' @ ''addr-'' @ sd),
                 LogInfo NoArg ''Wallet balance is: 0'',
                 LogInfo NoArg ''Waiting to receive tokens...'']\<rparr>"
  have c: "count_list (sdkCalls ?q) (State 1) = Suc 0"
    using assms by simp
  show ?thesis
    using demo_waitForFunds [OF c, of sd] assms
    by (simp add: buildWalletAndWaitForFunds_eq Let_def demoSdk_simps demoWallet_simps
        firstValueFrom_first snapshot_def)
qed

lemma TestWallet_setup_eq:
  "TestWallet_setup sdk tc (this, p) =
     (case buildWalletAndWaitForFunds sdk (dappConfig tc) (seed tc)
             (p\<lparr>logged := logged p @ [LogInfo NoArg ''Setting up wallet'']\<rparr>) of
        (Resolved w, q) \<Rightarrow> (Resolved w, this\<lparr>wallet := Some w\<rparr>, q)
      | (Rejected e, q) \<Rightarrow> (Rejected e, this, q)
      | (Pending, q) \<Rightarrow> (Pending, this, q)
      | (Exited n, q) \<Rightarrow> (Exited n, this, q))"
  by (simp add: TestWallet_setup_def logger_info_def)

lemma TestWallet_setup_calls:
  "sdkCalls (snd (snd (TestWallet_setup sdk tc (this, p)))) =
     sdkCalls (snd (buildWalletAndWaitForFunds sdk (dappConfig tc) (seed tc)
             (p\<lparr>logged := logged p @ [LogInfo NoArg ''Setting up wallet'']\<rparr>)))"
  by (simp add: TestWallet_setup_eq split: prod.splits Outcome.splits)

text \<open>
  C10. \<open>TestWallet.setup\<close> logs that it sets up the wallet and builds it with
  \<open>buildWalletAndWaitForFunds\<close> from the configuration and the seed of its argument;
  a handle that comes back is stored in the object and returned. For \<open>LocalTestConfig\<close>
  the seed is the genesis seed, 63 zeros and a 1, and the configuration is the standalone
  one, so the one wallet construction has the loopback endpoints, that seed and the
  identifier \<open>Undeployed\<close>. Whenever \<open>setup\<close> returns a handle, the last line logged is a
  positive balance, which is the native balance of a snapshot of that wallet.
\<close>

theorem TestWallet_setup_waits_for_funds:
  "TestWallet_setup sdk tc (this, p) =
     (case buildWalletAndWaitForFunds sdk (dappConfig tc) (seed tc)
             (p\<lparr>logged := logged p @ [LogInfo NoArg ''Setting up wallet'']\<rparr>) of
        (Resolved w, q) \<Rightarrow> (Resolved w, this\<lparr>wallet := Some w\<rparr>, q)
      | (Rejected e, q) \<Rightarrow> (Rejected e, this, q)
      | (Pending, q) \<Rightarrow> (Pending, this, q)
      | (Exited n, q) \<Rightarrow> (Exited n, this, q))
   \<and> fst (LocalTestConfig p) =
       \<lparr>seed = replicate 63 (CHR ''0'') @ ''1'', entrypoint = ''dist/standalone.js'',
        dappConfig = \<lparr>indexer = ''http://127.0.0.1:8088/api/v1/graphql'',
                      indexerWS = ''ws://127.0.0.1:8088/api/v1/graphql/ws'',
                      node = ''http://127.0.0.1:9944'',
                      proofServer = ''http://127.0.0.1:6300''\<rparr>,
        psMode = ''undeployed''\<rparr>
   \<and> seed (fst (LocalTestConfig p)) = GENESIS_MINT_WALLET_SEED
   \<and> length GENESIS_MINT_WALLET_SEED = 64
   \<and> constructions (sdkCalls (snd (snd
         (TestWallet_setup sdk (fst (LocalTestConfig p)) (this, snd (LocalTestConfig p)))))) =
       constructions (sdkCalls p) @
         [\<lparr>indexerUri = ''http://127.0.0.1:8088/api/v1/graphql'',
           indexerWsUri = ''ws://127.0.0.1:8088/api/v1/graphql/ws'',
           proverServerUri = ''http://127.0.0.1:6300'',
           substrateNodeUri = ''http://127.0.0.1:9944'',
           seedArg = GENESIS_MINT_WALLET_SEED, networkIdArg = Undeployed,
           minLogLevel = ''warn''\<rparr>]
   \<and> (\<forall>w this' p'. TestWallet_setup sdk tc (this, p) = (Resolved w, this', p') \<longrightarrow>
         wallet this' = Some w
         \<and> (\<exists>b k t s. 0 < b \<and> (t, s) \<in> set (emissions (stateObs w k))
               \<and> balances s (nativeToken sdk) = Some b
               \<and> last (logged p') = LogInfo NoArg (''Wallet balance is: '' @ showNat b)))"
proof -
  have 2: "fst (LocalTestConfig p) =
       \<lparr>seed = replicate 63 (CHR ''0'') @ ''1'', entrypoint = ''dist/standalone.js'',
        dappConfig = \<lparr>indexer = ''http://127.0.0.1:8088/api/v1/graphql'',
                      indexerWS = ''ws://127.0.0.1:8088/api/v1/graphql/ws'',
                      node = ''http://127.0.0.1:9944'',
                      proofServer = ''http://127.0.0.1:6300''\<rparr>,
        psMode = ''undeployed''\<rparr>"
    by (simp add: LocalTestConfig_def StandaloneConfig_def GENESIS_MINT_WALLET_SEED_def
        eval_nat_numeral)
  have 3: "seed (fst (LocalTestConfig p)) = GENESIS_MINT_WALLET_SEED"
    by (simp add: LocalTestConfig_def StandaloneConfig_def)
  have 4: "length GENESIS_MINT_WALLET_SEED = 64"
    by (simp add: GENESIS_MINT_WALLET_SEED_def)
  have 5: "constructions (sdkCalls (snd (snd
         (TestWallet_setup sdk (fst (LocalTestConfig p)) (this, snd (LocalTestConfig p)))))) =
       constructions (sdkCalls p) @
         [\<lparr>indexerUri = ''http://127.0.0.1:8088/api/v1/graphql'',
           indexerWsUri = ''ws://127.0.0.1:8088/api/v1/graphql/ws'',
           proverServerUri = ''http://127.0.0.1:6300'',
           substrateNodeUri = ''http://127.0.0.1:9944'',
           seedArg = GENESIS_MINT_WALLET_SEED, networkIdArg = Undeployed,
           minLogLevel = ''warn''\<rparr>]"
    by (simp add: TestWallet_setup_calls buildWalletAndWaitForFunds_constructions)
       (simp add: LocalTestConfig_def StandaloneConfig_def setNetworkId_def constructions_append)
  have 6: "wallet this' = Some w
         \<and> (\<exists>b k t s. 0 < b \<and> (t, s) \<in> set (emissions (stateObs w k))
               \<and> balances s (nativeToken sdk) = Some b
               \<and> last (logged p') = LogInfo NoArg (''Wallet balance is: '' @ showNat b))"
    if r: "TestWallet_setup sdk tc (this, p) = (Resolved w, this', p')" for w this' p'
  proof -
    from r have b: "buildWalletAndWaitForFunds sdk (dappConfig tc) (seed tc)
             (p\<lparr>logged := logged p @ [LogInfo NoArg ''Setting up wallet'']\<rparr>) = (Resolved w, p')"
      and t: "this' = this\<lparr>wallet := Some w\<rparr>"
      by (auto simp add: TestWallet_setup_eq split: prod.splits Outcome.splits)
    from buildWalletAndWaitForFunds_ResolvedD [OF b] t show ?thesis by auto
  qed
  from 6 have c6: "\<forall>w this' p'. TestWallet_setup sdk tc (this, p) = (Resolved w, this', p') \<longrightarrow>
         wallet this' = Some w
         \<and> (\<exists>b k t s. 0 < b \<and> (t, s) \<in> set (emissions (stateObs w k))
               \<and> balances s (nativeToken sdk) = Some b
               \<and> last (logged p') = LogInfo NoArg (''Wallet balance is: '' @ showNat b))"
    by (intro allI impI)
  from TestWallet_setup_eq [of sdk tc this p] 2 3 4 5 c6 show ?thesis by (intro conjI)
qed

text \<open>
  \<open>setup\<close> with \<open>LocalTestConfig\<close> against the concrete SDK: the wait ends with the
  balance 200, and the handle is stored and returned.
\<close>

theorem TestWallet_setup_waits_for_funds_witness:
  "fst (TestWallet_setup demoSdk (fst (LocalTestConfig freshProcess))
          (TestWallet_new, snd (LocalTestConfig freshProcess))) =
     Resolved (demoWallet GENESIS_MINT_WALLET_SEED)
   \<and> wallet (fst (snd (TestWallet_setup demoSdk (fst (LocalTestConfig freshProcess))
          (TestWallet_new, snd (LocalTestConfig freshProcess))))) =
       Some (demoWallet GENESIS_MINT_WALLET_SEED)
   \<and> (\<exists>b k t s. 0 < b
         \<and> (t, s) \<in> set (emissions (stateObs (demoWallet GENESIS_MINT_WALLET_SEED) k))
         \<and> balances s ''native'' = Some b
         \<and> last (logged (snd (snd (TestWallet_setup demoSdk (fst (LocalTestConfig freshProcess))
              (TestWallet_new, snd (LocalTestConfig freshProcess)))))) =
            LogInfo NoArg (''Wallet balance is: '' @ showNat b))"
proof -
  let ?tc = "fst (LocalTestConfig freshProcess)"
  let ?p = "snd (LocalTestConfig freshProcess)"
  let ?w = "demoWallet GENESIS_MINT_WALLET_SEED"
  note T = TestWallet_setup_waits_for_funds
    [where sdk = demoSdk and tc = ?tc and this = TestWallet_new and p = ?p]
  let ?q = "?p\<lparr>logged := logged ?p @ [LogInfo NoArg ''Setting up wallet'']\<rparr>"
  have c: "count_list (sdkCalls ?q) (State 1) = 0"
    by (simp add: LocalTestConfig_def StandaloneConfig_def setNetworkId_def freshProcess_def)
  have sd: "seed ?tc = GENESIS_MINT_WALLET_SEED"
    by (simp add: LocalTestConfig_def StandaloneConfig_def)
  obtain p' where b: "buildWalletAndWaitForFunds demoSdk (dappConfig ?tc) (seed ?tc) ?q = (Resolved ?w, p')"
    using demo_buildWalletAndWaitForFunds [OF c, of "dappConfig ?tc" "seed ?tc"] by (auto simp add: sd)
  have s: "TestWallet_setup demoSdk ?tc (TestWallet_new, ?p) =
      (Resolved ?w, TestWallet_new\<lparr>wallet := Some ?w\<rparr>, p')"
    using T [THEN conjunct1] by (simp add: b)
  from T [THEN conjunct2, THEN conjunct2, THEN conjunct2, THEN conjunct2, THEN conjunct2] s
  show ?thesis
    by (simp add: s demoSdk_simps)
qed

end
